theory Spec2Isabelle
  imports Complex_Main "HOL-Library.Log_Nat"
begin

section \<open>Python exceptions\<close>

text \<open>
  Every exception the modelled code can meet is an instance of Python's \<open>Exception\<close>
  class; it is represented by the text that \<open>str(e)\<close> gives. A computation that may
  raise returns \<open>py_exception + 'a\<close>, with \<open>Inl\<close> for the raised exception.
\<close>

datatype py_exception = PyException string

section \<open>The event bus (\<open>agentx/plugins/event_bus.py\<close>)\<close>

text \<open>
  \<open>Event\<close> is a dataclass with the fields \<open>name\<close>, \<open>timestamp\<close> and \<open>data\<close>. The
  timestamp is the reading of the clock (\<open>datetime.now()\<close>), a parameter of the model;
  \<open>data\<close> is the dictionary of the keyword arguments. The dataclass is not frozen:
  \<open>publish\<close> builds one \<open>Event\<close> object and hands that object to every handler, so
  a handler can change it and the handlers after it see the change. The model threads the
  value of that object through the calls.
\<close>

record 'v event =
  name :: string
  timestamp :: nat
  data :: "string \<rightharpoonup> 'v"

text \<open>
  \<open>EventBus._subscribers\<close> is a dictionary from event names to list objects. The
  lists are mutated in place and shared between the dictionary and the loop of
  \<open>publish\<close>, so they live in a store: \<open>subscribers\<close> maps a name to the address of
  its list, \<open>list_objects\<close> maps an address to the list stored there, and
  \<open>next_list\<close> is the address the next new list gets. Handlers are Python objects
  compared by identity: a handler is a value of a type \<open>'h\<close> of handler identities.
\<close>

record 'h event_bus =
  subscribers :: "string \<rightharpoonup> nat"
  list_objects :: "nat \<Rightarrow> 'h list"
  next_list :: nat

definition init_bus :: "'h event_bus" where
  "init_bus = \<lparr>subscribers = Map.empty, list_objects = (\<lambda>a. []), next_list = 0\<rparr>"


text \<open>
  \<open>self._subscribers.setdefault(event_name, []).append(handler)\<close>: a name that has no
  entry gets a new list; the handler is appended in place to the list of the name.
\<close>

definition subscribe ::
  "('h \<Rightarrow> bool) \<Rightarrow> 'h event_bus \<Rightarrow> string \<Rightarrow> 'h \<Rightarrow> py_exception + 'h event_bus" where
  "subscribe callable bus event_name handler =
     (if \<not> callable handler then Inl (PyException ''Event handler must be callable'')
      else case subscribers bus event_name of
             None \<Rightarrow>
               Inr (bus\<lparr>subscribers := (subscribers bus)(event_name \<mapsto> next_list bus),
                        list_objects := (list_objects bus)(next_list bus := [handler]),
                        next_list := next_list bus + 1\<rparr>)
           | Some a \<Rightarrow>
               Inr (bus\<lparr>list_objects := (list_objects bus)(a := list_objects bus a @ [handler])\<rparr>))"

text \<open>
  \<open>unsubscribe\<close> binds the name to a new list, the old one without the handler; the
  old list object is left as it is.
\<close>

definition unsubscribe :: "'h event_bus \<Rightarrow> string \<Rightarrow> 'h \<Rightarrow> 'h event_bus" where
  "unsubscribe bus event_name handler =
     (case subscribers bus event_name of
        None \<Rightarrow> bus
      | Some a \<Rightarrow>
          bus\<lparr>subscribers := (subscribers bus)(event_name \<mapsto> next_list bus),
              list_objects := (list_objects bus)
                 (next_list bus := filter (\<lambda>h. h \<noteq> handler) (list_objects bus a)),
              next_list := next_list bus + 1\<rparr>)"

text \<open>
  What a call of a handler does is given by a function \<open>run\<close> of the handler, the
  event it is handed, the bus and the state \<open>'w\<close> of everything else the handlers can
  touch. The call may raise, it may change the event, it may call \<open>subscribe\<close> and
  \<open>unsubscribe\<close> on the bus any number of times (\<open>bus_calls\<close>, in the order of the
  calls), and it leaves a new state. A handler that publishes another event is a handler
  whose calls and state are those of the handlers it reaches. Handlers act on the bus
  through these two methods only.
\<close>

datatype 'h bus_call = Subscribe string 'h | Unsubscribe string 'h

record ('h, 'v, 'w) handled =
  raised :: "py_exception option"
  event_after :: "'v event"
  bus_calls :: "'h bus_call list"
  world_after :: 'w


text \<open>
  A call of \<open>subscribe\<close> made by a handler that raises \<open>ValueError\<close> leaves the bus
  unchanged.
\<close>

fun apply_bus_call :: "('h \<Rightarrow> bool) \<Rightarrow> 'h event_bus \<Rightarrow> 'h bus_call \<Rightarrow> 'h event_bus" where
  "apply_bus_call callable bus (Subscribe event_name handler) =
     (case subscribe callable bus event_name handler of Inl e \<Rightarrow> bus | Inr bus' \<Rightarrow> bus')"
| "apply_bus_call callable bus (Unsubscribe event_name handler) =
     unsubscribe bus event_name handler"

text \<open>
  What \<open>publish\<close> does that can be observed: the calls of handlers, each with the
  value the event had when it was handed over, and the lines printed.
\<close>

datatype ('h, 'v) bus_effect = Invoked 'h "'v event" | Printed string

fun str_exn :: "py_exception \<Rightarrow> string" where
  "str_exn (PyException msg) = msg"

text \<open>
  \<open>except Exception as e: print(f"Error in event handler for {event_name}: {e}")\<close>
\<close>

definition printed_for :: "string \<Rightarrow> py_exception option \<Rightarrow> ('h, 'v) bus_effect list" where
  "printed_for event_name r =
     (case r of
        None \<Rightarrow> []
      | Some e \<Rightarrow> [Printed (''Error in event handler for '' @ event_name @ '': '' @ str_exn e)])"

text \<open>
  What is left when \<open>publish\<close> returns: the effects, the event object, the bus and
  the state.
\<close>

type_synonym ('h, 'v, 'w) left = "('h, 'v) bus_effect list \<times> 'v event \<times> 'h event_bus \<times> 'w"

text \<open>
  The loop \<open>for handler in self._subscribers.get(event_name, [])\<close> walks the list
  object at address \<open>a\<close> by index and reads the list anew at every step, as Python's
  list iterator does: a handler appended to that list while the loop runs is called too.
  Each handler is called inside \<open>try\<close>; after \<open>except Exception\<close> has printed its
  line the loop goes on. The loop need not end (a handler can subscribe a handler each
  time it is called), so it runs on fuel: \<open>None\<close> is a loop that has not returned when
  the fuel is used up.
\<close>

fun publish_loop ::
  "nat \<Rightarrow> ('h \<Rightarrow> 'v event \<Rightarrow> 'h event_bus \<Rightarrow> 'w \<Rightarrow> ('h, 'v, 'w) handled) \<Rightarrow> ('h \<Rightarrow> bool)
     \<Rightarrow> string \<Rightarrow> nat \<Rightarrow> nat \<Rightarrow> 'v event \<Rightarrow> 'h event_bus \<Rightarrow> 'w
     \<Rightarrow> ((py_exception + unit) \<times> ('h, 'v, 'w) left) option" where
  "publish_loop 0 run callable event_name a i ev bus w = None"
| "publish_loop (Suc fuel) run callable event_name a i ev bus w =
     (if i < length (list_objects bus a)
      then (let handler = list_objects bus a ! i;
                done = run handler ev bus w;
                bus' = foldl (apply_bus_call callable) bus (bus_calls done)
            in case publish_loop fuel run callable event_name a (i + 1)
                      (event_after done) bus' (world_after done) of
                 None \<Rightarrow> None
               | Some (r, effs, rest) \<Rightarrow>
                   Some (r, Invoked handler ev # printed_for event_name (raised done) @ effs, rest))
      else Some (Inr (), [], ev, bus, w))"

text \<open>
  \<open>publish\<close> builds the event and loops over the list of the name; for a name with no
  entry, \<open>get\<close> gives a new empty list that nothing else refers to, and the loop is
  over at once.
\<close>

definition publish ::
  "nat \<Rightarrow> ('h \<Rightarrow> 'v event \<Rightarrow> 'h event_bus \<Rightarrow> 'w \<Rightarrow> ('h, 'v, 'w) handled) \<Rightarrow> ('h \<Rightarrow> bool)
     \<Rightarrow> 'h event_bus \<Rightarrow> 'w \<Rightarrow> nat \<Rightarrow> string \<Rightarrow> (string \<rightharpoonup> 'v)
     \<Rightarrow> ((py_exception + unit) \<times> ('h, 'v, 'w) left) option" where
  "publish fuel run callable bus w now event_name kwargs =
     (let ev = \<lparr>name = event_name, timestamp = now, data = kwargs\<rparr>
      in case subscribers bus event_name of
           None \<Rightarrow> Some (Inr (), [], ev, bus, w)
         | Some a \<Rightarrow> publish_loop fuel run callable event_name a 0 ev bus w)"

text \<open>
  The handler calls among the effects, in the order they were made.
\<close>

fun invocations :: "('h, 'v) bus_effect list \<Rightarrow> ('h \<times> 'v event) list" where
  "invocations [] = []"
| "invocations (Invoked h ev # effs) = (h, ev) # invocations effs"
| "invocations (Printed s # effs) = invocations effs"


text \<open>
  The buses that \<open>subscribe\<close> and \<open>unsubscribe\<close> build from the empty bus: every
  list in use has an address below \<open>next_list\<close>, and no two names share a list.
\<close>

definition wf_bus :: "'h event_bus \<Rightarrow> bool" where
  "wf_bus bus =
     ((\<forall>m a. subscribers bus m = Some a \<longrightarrow> a < next_list bus)
      \<and> (\<forall>m m' a. subscribers bus m = Some a \<and> subscribers bus m' = Some a \<longrightarrow> m = m'))"

text \<open>
  A bus with three handlers for \<open>tick\<close> and four ways for handlers to behave: the
  second handler raises; the first handler marks the event; the first handler subscribes
  a further handler to \<open>tick\<close>; every handler subscribes itself again.
\<close>

definition tick_bus :: "nat event_bus" where
  "tick_bus =
     \<lparr>subscribers = [''tick'' \<mapsto> 0], list_objects = (\<lambda>a. [])(0 := [1, 2, 3]), next_list = 1\<rparr>"



definition chaining_run ::
  "nat \<Rightarrow> bool event \<Rightarrow> nat event_bus \<Rightarrow> nat \<Rightarrow> (nat, bool, nat) handled" where
  "chaining_run h e b x =
     \<lparr>raised = None, event_after = e,
      bus_calls = (if h = 1 then [Subscribe ''tick'' 9] else []), world_after = x + 1\<rparr>"

definition resubscribing_run ::
  "nat \<Rightarrow> bool event \<Rightarrow> nat event_bus \<Rightarrow> nat \<Rightarrow> (nat, bool, nat) handled" where
  "resubscribing_run h e b x =
     \<lparr>raised = None, event_after = e, bus_calls = [Subscribe ''tick'' h], world_after = x + 1\<rparr>"

section \<open>The raw pool swap path (\<open>agentx/tools/use_raydium.py\<close>)\<close>

subsection \<open>Computations that may raise, and calls of the outside world\<close>

definition bind_exn :: "py_exception + 'a \<Rightarrow> ('a \<Rightarrow> py_exception + 'b) \<Rightarrow> py_exception + 'b" where
  "bind_exn m k = (case m of Inl e \<Rightarrow> Inl e | Inr x \<Rightarrow> k x)"

type_synonym pubkey = string
type_synonym blockhash = string
type_synonym signature = string

datatype keypair = Keypair (pubkey: pubkey)

text \<open>\<open>SolanaAgentKit\<close>: only \<open>rpc_url\<close> and \<open>wallet\<close> are read.\<close>

record agent =
  rpc_url :: string
  wallet :: keypair

text \<open>The pool keys returned by \<open>fetch_pool_keys\<close>; the swap path reads the two mints.\<close>

record pool_keys =
  amm_id :: pubkey
  base_mint :: pubkey
  quote_mint :: pubkey
  base_vault :: pubkey
  quote_vault :: pubkey

text \<open>
  The instructions of a transaction. \<open>CreateAccountWithSeedParams\<close> is kept as a record
  with the source's keywords; \<open>InitializeAccount\<close> and \<open>CloseAccount\<close> carry the fields
  of \<open>InitializeAccountParams\<close> (program id, account, mint, owner) and
  \<open>CloseAccountParams\<close> (program id, account, destination, owner) in that order;
  \<open>CreateAssociatedTokenAccount\<close> carries payer, owner and mint. The constructors of
  the libraries are taken as total: an argument check of theirs that raises would be one
  more exception caught by the \<open>except\<close> clause.
\<close>

record create_account_with_seed_params =
  from_pubkey :: pubkey
  to_pubkey :: pubkey
  base :: pubkey
  seed :: string
  lamports :: int
  space :: int
  owner :: pubkey

text \<open>
  Modelled from the spec: \<open>make_swap_instruction\<close> (module \<open>agentx.utils.raydium.utils\<close>)
  is missing from the sources. It is taken to build "the swap instruction" of the bundle
  from its six arguments: amount in, minimum amount out, token account in, token account
  out, the pool keys and the owner.
\<close>

datatype instruction =
    SetComputeUnitLimit int
  | SetComputeUnitPrice int
  | CreateAccountWithSeed create_account_with_seed_params
  | InitializeAccount pubkey pubkey pubkey pubkey
  | CreateAssociatedTokenAccount pubkey pubkey pubkey
  | Swap int int pubkey pubkey pool_keys keypair
  | CloseAccount pubkey pubkey pubkey pubkey

datatype message = MessageV0 pubkey "instruction list" blockhash

datatype transaction = VersionedTransaction message "keypair list"

text \<open>
  The calls that leave the function, in the order they are made. All of them but
  \<open>CallUrandom\<close> and \<open>CallTryCompile\<close> go to the network. The lines printed are not
  recorded.
\<close>

datatype call =
    CallFetchPoolKeys string
  | CallGetTokenBalance string
  | CallGetTokenReserves pool_keys
  | CallGetTokenAccountsByOwner pubkey pubkey
  | CallUrandom nat
  | CallGetMinBalanceRent
  | CallGetLatestBlockhash
  | CallTryCompile pubkey "instruction list" blockhash
  | CallSendTransaction transaction
  | CallConfirmTxn signature

fun is_network_call :: "call \<Rightarrow> bool" where
  "is_network_call (CallUrandom n) = False"
| "is_network_call (CallTryCompile p instrs h) = False"
| "is_network_call c = True"

text \<open>The two calls that hand a transaction to the network and ask what became of it.\<close>

fun is_submission :: "call \<Rightarrow> bool" where
  "is_submission (CallSendTransaction t) = True"
| "is_submission (CallConfirmTxn s) = True"
| "is_submission c = False"

text \<open>
  A step of the function: the value it gives or the exception it raises, and the calls it
  made. \<open>bind_io\<close> runs the second step only when the first did not raise.
\<close>

type_synonym 'a io = "(py_exception + 'a) \<times> call list"

definition return_io :: "'a \<Rightarrow> 'a io" where
  "return_io x = (Inr x, [])"

definition pure_io :: "py_exception + 'a \<Rightarrow> 'a io" where
  "pure_io r = (r, [])"

definition call_io :: "call \<Rightarrow> py_exception + 'a \<Rightarrow> 'a io" where
  "call_io c r = (r, [c])"

definition bind_io :: "'a io \<Rightarrow> ('a \<Rightarrow> 'b io) \<Rightarrow> 'b io" where
  "bind_io m k =
     (case m of
        (Inl e, tr) \<Rightarrow> (Inl e, tr)
      | (Inr x, tr) \<Rightarrow> (case k x of (r, tr') \<Rightarrow> (r, tr @ tr')))"

subsection \<open>Python floats\<close>

text \<open>
  \<open>sol_in\<close>, the reserves, the token balance and the amounts computed from them are
  Python floats. The model is parametric in the type \<open>'f\<close> of floats and in the
  operations the source applies to them:
  \<^item> \<open>f_of_int i\<close>: the conversion of an integer operand of a mixed operation (raises
    OverflowError when \<open>i\<close> is too large);
  \<^item> \<open>f_truediv_int i j\<close>: \<open>i / j\<close> on two integers;
  \<^item> \<open>f_sub\<close>, \<open>f_mul\<close>: \<open>-\<close> and \<open>*\<close> on two floats;
  \<^item> \<open>f_int x\<close>: \<open>int(x)\<close>, which raises on an infinity and on a NaN;
  \<^item> \<open>f_eq_int x i\<close>: \<open>x == i\<close>.
\<close>

record 'f float_ops =
  f_of_int :: "int \<Rightarrow> py_exception + 'f"
  f_truediv_int :: "int \<Rightarrow> int \<Rightarrow> py_exception + 'f"
  f_sub :: "'f \<Rightarrow> 'f \<Rightarrow> 'f"
  f_mul :: "'f \<Rightarrow> 'f \<Rightarrow> 'f"
  f_int :: "'f \<Rightarrow> py_exception + int"
  f_eq_int :: "'f \<Rightarrow> int \<Rightarrow> bool"

text \<open>\<open>x * 10**token_decimal\<close>: a float times an integer.\<close>

definition f_mul_int :: "'f float_ops \<Rightarrow> 'f \<Rightarrow> int \<Rightarrow> py_exception + 'f" where
  "f_mul_int fo x i = bind_exn (f_of_int fo i) (\<lambda>y. Inr (f_mul fo x y))"

text \<open>\<open>slippage_adjustment = 1 - (slippage / 100)\<close>\<close>

definition slippage_adjustment :: "'f float_ops \<Rightarrow> int \<Rightarrow> py_exception + 'f" where
  "slippage_adjustment fo slippage =
     bind_exn (f_truediv_int fo slippage 100) (\<lambda>q.
     bind_exn (f_of_int fo 1) (\<lambda>one. Inr (f_sub fo one q)))"

subsection \<open>Constants and collaborators missing from the sources\<close>

text \<open>
  The constants of \<open>agentx.utils.raydium.constants\<close> and the size of \<open>ACCOUNT_LAYOUT\<close>
  are parameters. \<open>SOL_DECIMAL\<close> multiplies floats and is taken as a float: the
  multiplication would convert an integer constant to one.
\<close>

record 'f constants =
  SOL_DECIMAL :: 'f
  TOKEN_PROGRAM_ID :: pubkey
  UNIT_BUDGET :: int
  UNIT_PRICE :: int
  WSOL :: pubkey
  ACCOUNT_LAYOUT_sizeof :: int

text \<open>
  What the outside world answers in one run: the helpers of
  \<open>agentx.utils.raydium.utils\<close> (missing from the sources), the RPC client, the
  libraries that derive addresses, compile and sign, and the random source.
  \<open>urandom_seed\<close> is the text that
  \<open>base64.urlsafe_b64encode(os.urandom(24)).decode('utf-8')\<close> evaluates to. Any of
  the calls may raise. \<open>get_token_reserves\<close> answers the two reserves and the number
  of decimals of the token, a natural number; \<open>get_token_balance\<close> answers a balance
  or \<open>None\<close>; \<open>get_token_accounts_by_owner\<close> answers the addresses of the accounts
  found.
\<close>

record 'f env =
  fetch_pool_keys :: "string \<Rightarrow> py_exception + pool_keys option"
  get_token_balance :: "string \<Rightarrow> py_exception + 'f option"
  get_token_reserves :: "pool_keys \<Rightarrow> py_exception + ('f \<times> 'f \<times> nat)"
  sol_for_tokens :: "'f \<Rightarrow> 'f \<Rightarrow> 'f \<Rightarrow> py_exception + 'f"
  tokens_for_sol :: "'f \<Rightarrow> 'f \<Rightarrow> 'f \<Rightarrow> py_exception + 'f"
  get_token_accounts_by_owner :: "pubkey \<Rightarrow> pubkey \<Rightarrow> py_exception + pubkey list"
  get_associated_token_address :: "pubkey \<Rightarrow> pubkey \<Rightarrow> pubkey"
  urandom_seed :: "py_exception + string"
  create_with_seed :: "pubkey \<Rightarrow> string \<Rightarrow> pubkey \<Rightarrow> py_exception + pubkey"
  get_min_balance_rent_for_exempt_for_account :: "py_exception + int"
  get_latest_blockhash :: "py_exception + blockhash"
  try_compile :: "pubkey \<Rightarrow> instruction list \<Rightarrow> blockhash \<Rightarrow> py_exception + message"
  send_transaction :: "transaction \<Rightarrow> py_exception + signature"
  confirm_txn :: "signature \<Rightarrow> py_exception + bool"

subsection \<open>\<open>RaydiumManager.buy_with_raydium\<close>\<close>

text \<open>
  \<open>mint = pool_keys.base_mint if pool_keys.base_mint != WSOL else pool_keys.quote_mint\<close>
\<close>

definition pool_mint :: "'f constants \<Rightarrow> pool_keys \<Rightarrow> pubkey" where
  "pool_mint c pool_keys =
     (if base_mint pool_keys \<noteq> WSOL c then base_mint pool_keys else quote_mint pool_keys)"

text \<open>\<open>minimum_amount_out = int(amount_out * slippage_adjustment * 10**token_decimal)\<close>\<close>

definition buy_minimum_amount_out ::
  "'f float_ops \<Rightarrow> 'f \<Rightarrow> 'f \<Rightarrow> nat \<Rightarrow> py_exception + int" where
  "buy_minimum_amount_out fo amount_out adj token_decimal =
     bind_exn (f_mul_int fo (f_mul fo amount_out adj) (10 ^ token_decimal)) (f_int fo)"

text \<open>
  The list \<open>instructions\<close> of the buy path: the four fixed instructions, the creation
  of the associated token account when there is one to create, then the swap and the
  close of the wrapped account.
\<close>

definition buy_instructions ::
  "'f constants \<Rightarrow> instruction \<Rightarrow> instruction \<Rightarrow> instruction option \<Rightarrow> instruction
     \<Rightarrow> instruction \<Rightarrow> instruction list" where
  "buy_instructions c create_wsol_account_instr init_wsol_account_instr token_account_instr
       swap_instructions close_wsol_account_instr =
     [SetComputeUnitLimit (UNIT_BUDGET c), SetComputeUnitPrice (UNIT_PRICE c),
      create_wsol_account_instr, init_wsol_account_instr]
     @ (case token_account_instr of None \<Rightarrow> [] | Some i \<Rightarrow> [i])
     @ [swap_instructions, close_wsol_account_instr]"

text \<open>
  From the compiled message to the result: the blockhash is fetched while the arguments
  of \<open>try_compile\<close> are evaluated, the transaction is signed by the payer, sent, and
  the answer of \<open>confirm_txn\<close> is returned. Both paths end with these lines.
\<close>

definition compile_send_confirm ::
  "'f env \<Rightarrow> keypair \<Rightarrow> instruction list \<Rightarrow> bool io" where
  "compile_send_confirm env payer_keypair instructions =
     bind_io (call_io CallGetLatestBlockhash (get_latest_blockhash env)) (\<lambda>blockhash.
     bind_io (call_io (CallTryCompile (pubkey payer_keypair) instructions blockhash)
                (try_compile env (pubkey payer_keypair) instructions blockhash))
       (\<lambda>compiled_message.
     bind_io (call_io (CallSendTransaction (VersionedTransaction compiled_message [payer_keypair]))
                (send_transaction env (VersionedTransaction compiled_message [payer_keypair])))
       (\<lambda>txn_sig.
     call_io (CallConfirmTxn txn_sig) (confirm_txn env txn_sig))))"

text \<open>
  The body of the \<open>try\<close> block of \<open>buy_with_raydium\<close>. \<open>Client(agent.rpc_url)\<close>
  only builds the client object. \<open>balance_needed\<close> and \<open>amount_in\<close> are integers, so
  \<open>int(balance_needed + amount_in)\<close> is their sum.
\<close>

definition buy_try_block ::
  "'f float_ops \<Rightarrow> 'f constants \<Rightarrow> 'f env \<Rightarrow> agent \<Rightarrow> string \<Rightarrow> 'f \<Rightarrow> int \<Rightarrow> bool io" where
  "buy_try_block fo c env agent pair_address sol_in slippage =
     (let payer_keypair = wallet agent in
      bind_io (call_io (CallFetchPoolKeys pair_address) (fetch_pool_keys env pair_address))
        (\<lambda>fetched.
      case fetched of
        None \<Rightarrow> return_io False
      | Some pool_keys \<Rightarrow>
      (let mint = pool_mint c pool_keys in
      bind_io (pure_io (f_int fo (f_mul fo sol_in (SOL_DECIMAL c)))) (\<lambda>amount_in.
      bind_io (call_io (CallGetTokenReserves pool_keys) (get_token_reserves env pool_keys))
        (\<lambda>(base_reserve, quote_reserve, token_decimal).
      bind_io (pure_io (sol_for_tokens env sol_in base_reserve quote_reserve)) (\<lambda>amount_out.
      bind_io (pure_io (slippage_adjustment fo slippage)) (\<lambda>adj.
      bind_io (pure_io (buy_minimum_amount_out fo amount_out adj token_decimal))
        (\<lambda>minimum_amount_out.
      bind_io (call_io (CallGetTokenAccountsByOwner (pubkey payer_keypair) mint)
                 (get_token_accounts_by_owner env (pubkey payer_keypair) mint))
        (\<lambda>token_account_check.
      (let (token_account, token_account_instr) =
             (case token_account_check of
                first # others \<Rightarrow> (first, None)
              | [] \<Rightarrow>
                  (get_associated_token_address env (pubkey payer_keypair) mint,
                   Some (CreateAssociatedTokenAccount
                           (pubkey payer_keypair) (pubkey payer_keypair) mint))) in
      bind_io (call_io (CallUrandom 24) (urandom_seed env)) (\<lambda>seed_text.
      bind_io (pure_io (create_with_seed env (pubkey payer_keypair) seed_text
                          (TOKEN_PROGRAM_ID c))) (\<lambda>wsol_token_account.
      bind_io (call_io CallGetMinBalanceRent (get_min_balance_rent_for_exempt_for_account env))
        (\<lambda>balance_needed.
      (let create_wsol_account_instr =
             CreateAccountWithSeed
               \<lparr>from_pubkey = pubkey payer_keypair,
                to_pubkey = wsol_token_account,
                base = pubkey payer_keypair,
                seed = seed_text,
                lamports = balance_needed + amount_in,
                space = ACCOUNT_LAYOUT_sizeof c,
                owner = TOKEN_PROGRAM_ID c\<rparr>;
           init_wsol_account_instr =
             InitializeAccount (TOKEN_PROGRAM_ID c) wsol_token_account (WSOL c)
               (pubkey payer_keypair);
           swap_instructions =
             Swap amount_in minimum_amount_out wsol_token_account token_account pool_keys
               payer_keypair;
           close_wsol_account_instr =
             CloseAccount (TOKEN_PROGRAM_ID c) wsol_token_account (pubkey payer_keypair)
               (pubkey payer_keypair);
           instructions =
             buy_instructions c create_wsol_account_instr init_wsol_account_instr
               token_account_instr swap_instructions close_wsol_account_instr
       in compile_send_confirm env payer_keypair instructions))))))))))))))"

text \<open>
  \<open>except Exception\<close>: whatever the \<open>try\<close> block raised, a line is printed and the
  function returns \<open>False\<close>.
\<close>

definition except_return_False :: "bool io \<Rightarrow> bool io" where
  "except_return_False m = (case m of (Inl e, tr) \<Rightarrow> (Inr False, tr) | (Inr b, tr) \<Rightarrow> (Inr b, tr))"

definition buy_with_raydium ::
  "'f float_ops \<Rightarrow> 'f constants \<Rightarrow> 'f env \<Rightarrow> agent \<Rightarrow> string \<Rightarrow> 'f \<Rightarrow> int \<Rightarrow> bool io" where
  "buy_with_raydium fo c env agent pair_address sol_in slippage =
     except_return_False (buy_try_block fo c env agent pair_address sol_in slippage)"

subsection \<open>\<open>RaydiumManager.sell_with_raydium\<close>\<close>

text \<open>
  \<open>amount_out_with_slippage = amount_out * slippage_adjustment\<close>, then
  \<open>minimum_amount_out = int(amount_out_with_slippage * SOL_DECIMAL)\<close>
\<close>

definition sell_minimum_amount_out ::
  "'f float_ops \<Rightarrow> 'f constants \<Rightarrow> 'f \<Rightarrow> 'f \<Rightarrow> py_exception + int" where
  "sell_minimum_amount_out fo c amount_out adj =
     f_int fo (f_mul fo (f_mul fo amount_out adj) (SOL_DECIMAL c))"

text \<open>
  The list \<open>instructions\<close> of the sell path: six fixed instructions, and the close of
  the token account appended when \<open>percentage == 100\<close>.
\<close>

definition sell_instructions ::
  "'f constants \<Rightarrow> int \<Rightarrow> instruction \<Rightarrow> instruction \<Rightarrow> instruction \<Rightarrow> instruction
     \<Rightarrow> instruction \<Rightarrow> instruction list" where
  "sell_instructions c percentage create_wsol_account_instr init_wsol_account_instr
       swap_instructions close_wsol_account_instr close_token_account_instr =
     [SetComputeUnitLimit (UNIT_BUDGET c), SetComputeUnitPrice (UNIT_PRICE c),
      create_wsol_account_instr, init_wsol_account_instr,
      swap_instructions, close_wsol_account_instr]
     @ (if percentage = 100 then [close_token_account_instr] else [])"

text \<open>
  The body of the \<open>try\<close> block of \<open>sell_with_raydium\<close>. The test
  \<open>token_balance == 0 or token_balance is None\<close> returns \<open>False\<close> for \<open>None\<close> and
  for a balance equal to zero.
\<close>

definition sell_try_block ::
  "'f float_ops \<Rightarrow> 'f constants \<Rightarrow> 'f env \<Rightarrow> agent \<Rightarrow> string \<Rightarrow> int \<Rightarrow> int \<Rightarrow> bool io" where
  "sell_try_block fo c env agent pair_address percentage slippage =
     (let payer_keypair = wallet agent in
      if \<not> (1 \<le> percentage \<and> percentage \<le> 100) then return_io False
      else
      bind_io (call_io (CallFetchPoolKeys pair_address) (fetch_pool_keys env pair_address))
        (\<lambda>fetched.
      case fetched of
        None \<Rightarrow> return_io False
      | Some pool_keys \<Rightarrow>
      (let mint = pool_mint c pool_keys in
      bind_io (call_io (CallGetTokenBalance mint) (get_token_balance env mint)) (\<lambda>balance.
      case balance of
        None \<Rightarrow> return_io False
      | Some whole_balance \<Rightarrow>
      if f_eq_int fo whole_balance 0 then return_io False
      else
      bind_io (pure_io (f_truediv_int fo percentage 100)) (\<lambda>fraction.
      (let token_balance = f_mul fo whole_balance fraction in
      bind_io (call_io (CallGetTokenReserves pool_keys) (get_token_reserves env pool_keys))
        (\<lambda>(base_reserve, quote_reserve, token_decimal).
      bind_io (pure_io (tokens_for_sol env token_balance base_reserve quote_reserve))
        (\<lambda>amount_out.
      bind_io (pure_io (slippage_adjustment fo slippage)) (\<lambda>adj.
      bind_io (pure_io (sell_minimum_amount_out fo c amount_out adj)) (\<lambda>minimum_amount_out.
      bind_io (pure_io (bind_exn (f_mul_int fo token_balance (10 ^ token_decimal)) (f_int fo)))
        (\<lambda>amount_in.
      (let token_account = get_associated_token_address env (pubkey payer_keypair) mint in
      bind_io (call_io (CallUrandom 24) (urandom_seed env)) (\<lambda>seed_text.
      bind_io (pure_io (create_with_seed env (pubkey payer_keypair) seed_text
                          (TOKEN_PROGRAM_ID c))) (\<lambda>wsol_token_account.
      bind_io (call_io CallGetMinBalanceRent (get_min_balance_rent_for_exempt_for_account env))
        (\<lambda>balance_needed.
      (let create_wsol_account_instr =
             CreateAccountWithSeed
               \<lparr>from_pubkey = pubkey payer_keypair,
                to_pubkey = wsol_token_account,
                base = pubkey payer_keypair,
                seed = seed_text,
                lamports = balance_needed,
                space = ACCOUNT_LAYOUT_sizeof c,
                owner = TOKEN_PROGRAM_ID c\<rparr>;
           init_wsol_account_instr =
             InitializeAccount (TOKEN_PROGRAM_ID c) wsol_token_account (WSOL c)
               (pubkey payer_keypair);
           swap_instructions =
             Swap amount_in minimum_amount_out token_account wsol_token_account pool_keys
               payer_keypair;
           close_wsol_account_instr =
             CloseAccount (TOKEN_PROGRAM_ID c) wsol_token_account (pubkey payer_keypair)
               (pubkey payer_keypair);
           close_token_account_instr =
             CloseAccount (TOKEN_PROGRAM_ID c) token_account (pubkey payer_keypair)
               (pubkey payer_keypair);
           instructions =
             sell_instructions c percentage create_wsol_account_instr init_wsol_account_instr
               swap_instructions close_wsol_account_instr close_token_account_instr
       in compile_send_confirm env payer_keypair instructions))))))))))))))))"

definition sell_with_raydium ::
  "'f float_ops \<Rightarrow> 'f constants \<Rightarrow> 'f env \<Rightarrow> agent \<Rightarrow> string \<Rightarrow> int \<Rightarrow> int \<Rightarrow> bool io" where
  "sell_with_raydium fo c env agent pair_address percentage slippage =
     except_return_False (sell_try_block fo c env agent pair_address percentage slippage)"

subsection \<open>The quote: estimate and minimum\<close>

text \<open>
  The unadjusted estimate of the quote in the smallest unit of the output, as the source
  would compute it: the expression of \<open>minimum_amount_out\<close> without the factor
  \<open>slippage_adjustment\<close>, that is \<open>int(amount_out * 10**token_decimal)\<close> on the buy
  path and \<open>int(amount_out * SOL_DECIMAL)\<close> on the sell path.
\<close>

definition buy_amount_out_estimate ::
  "'f float_ops \<Rightarrow> 'f \<Rightarrow> nat \<Rightarrow> py_exception + int" where
  "buy_amount_out_estimate fo amount_out token_decimal =
     bind_exn (f_mul_int fo amount_out (10 ^ token_decimal)) (f_int fo)"

definition sell_amount_out_estimate ::
  "'f float_ops \<Rightarrow> 'f constants \<Rightarrow> 'f \<Rightarrow> py_exception + int" where
  "sell_amount_out_estimate fo c amount_out = f_int fo (f_mul fo amount_out (SOL_DECIMAL c))"

text \<open>
  The minimum as the specification words it:
  \<open>floor(amount_out_estimate * (1 - slippage_percent / 100))\<close>, in exact arithmetic.
\<close>

definition spec_minimum_amount_out :: "rat \<Rightarrow> int \<Rightarrow> int" where
  "spec_minimum_amount_out amount_out_estimate slippage_percent =
     \<lfloor>amount_out_estimate * (1 - of_int slippage_percent / 100)\<rfloor>"

subsection \<open>Reading an assembled bundle\<close>

text \<open>
  The kinds of instruction of a bundle, and the order the specification states for
  them: compute-budget hints (unit limit, unit price), creation of the ephemeral
  account, its initialization, the optional creation of the associated account, the
  swap, the close of the ephemeral account, and the optional close of the source
  account.
\<close>

datatype instruction_kind =
    UnitLimit | UnitPrice | CreateEphemeral | InitializeEphemeral | CreateAssociated
  | SwapKind | CloseKind

fun kind_of :: "instruction \<Rightarrow> instruction_kind" where
  "kind_of (SetComputeUnitLimit n) = UnitLimit"
| "kind_of (SetComputeUnitPrice n) = UnitPrice"
| "kind_of (CreateAccountWithSeed ps) = CreateEphemeral"
| "kind_of (InitializeAccount t a m ow) = InitializeEphemeral"
| "kind_of (CreateAssociatedTokenAccount p ow m) = CreateAssociated"
| "kind_of (Swap a b src dst k ow) = SwapKind"
| "kind_of (CloseAccount t a d ow) = CloseKind"

definition stated_order :: "instruction_kind list \<Rightarrow> bool" where
  "stated_order ks =
     (ks = [UnitLimit, UnitPrice, CreateEphemeral, InitializeEphemeral, SwapKind, CloseKind]
      \<or> ks = [UnitLimit, UnitPrice, CreateEphemeral, InitializeEphemeral, CreateAssociated,
               SwapKind, CloseKind]
      \<or> ks = [UnitLimit, UnitPrice, CreateEphemeral, InitializeEphemeral, SwapKind, CloseKind,
               CloseKind]
      \<or> ks = [UnitLimit, UnitPrice, CreateEphemeral, InitializeEphemeral, CreateAssociated,
               SwapKind, CloseKind, CloseKind])"

text \<open>The close instructions of a bundle, its swap instructions and the funding of
  the accounts it creates, each in the order of the bundle.\<close>

definition close_instructions :: "instruction list \<Rightarrow> instruction list" where
  "close_instructions instrs = filter (\<lambda>i. kind_of i = CloseKind) instrs"

definition swap_instructions_of :: "instruction list \<Rightarrow> instruction list" where
  "swap_instructions_of instrs = filter (\<lambda>i. kind_of i = SwapKind) instrs"

fun created_lamports :: "instruction list \<Rightarrow> int list" where
  "created_lamports [] = []"
| "created_lamports (CreateAccountWithSeed ps # rest) = lamports ps # created_lamports rest"
| "created_lamports (i # rest) = created_lamports rest"

text \<open>
  The accounts a bundle creates with a seed: for each \<open>CreateAccountWithSeed\<close>
  instruction, in the order of the bundle, the seed and the address of the new account.
\<close>

fun created_accounts :: "instruction list \<Rightarrow> (string \<times> pubkey) list" where
  "created_accounts [] = []"
| "created_accounts (CreateAccountWithSeed ps # rest) = (seed ps, to_pubkey ps) # created_accounts rest"
| "created_accounts (i # rest) = created_accounts rest"

text \<open>The bundles a run handed to \<open>MessageV0.try_compile\<close>.\<close>

fun assembled_bundles :: "call list \<Rightarrow> instruction list list" where
  "assembled_bundles [] = []"
| "assembled_bundles (CallTryCompile p instrs h # rest) = instrs # assembled_bundles rest"
| "assembled_bundles (c # rest) = assembled_bundles rest"

section \<open>The swap math of the specification\<close>

text \<open>
  Modelled from the spec: \<open>tokens_for_sol\<close> and \<open>sol_for_tokens\<close> (module
  \<open>agentx.utils.raydium.utils\<close>) are missing from the sources. The specification
  gives \<open>native_for_asset(asset_in, base_reserve, quote_reserve)\<close> as
  \<open>quote_reserve - (base_reserve * quote_reserve) / (base_reserve + asset_in)\<close>, in
  arbitrary-precision arithmetic (the rationals here), with one checked precondition,
  \<open>base_reserve + asset_in > 0\<close>, whose violation fails with
  \<open>InvalidReserveStateError\<close>.
\<close>

datatype swap_math_error = InvalidReserveStateError

definition native_for_asset :: "rat \<Rightarrow> rat \<Rightarrow> rat \<Rightarrow> swap_math_error + rat" where
  "native_for_asset asset_in base_reserve quote_reserve =
     (if 0 < base_reserve + asset_in
      then Inr (quote_reserve - (base_reserve * quote_reserve) / (base_reserve + asset_in))
      else Inl InvalidReserveStateError)"

section \<open>Python floats as IEEE 754 doubles\<close>

text \<open>
  A Python float is a binary64 value: a finite number \<open>m * 2^q\<close> with \<open>\<bar>m\<bar> < 2^53\<close> and
  \<open>- 1074 \<le> q \<le> 971\<close>, an infinity or a NaN. Finite values are kept as rationals. The
  two zeros are one value here: the source never divides by a float nor prints one into
  a value it uses, so the sign of a zero is never observed.
\<close>

datatype pyfloat = Finite rat | PosInf | NegInf | NaN

text \<open>\<open>floor_log2 x\<close> is the \<open>e\<close> with \<open>2^e \<le> x < 2^(e + 1)\<close>, for \<open>0 < x\<close>.\<close>

definition floor_log2 :: "rat \<Rightarrow> int" where
  "floor_log2 x =
     (let k = bitlen (fst (quotient_of x)) - bitlen (snd (quotient_of x))
      in if 2 powi k \<le> x then k else k - 1)"

text \<open>The nearest integer, a tie going to the even one.\<close>

definition round_half_even :: "rat \<Rightarrow> int" where
  "round_half_even y =
     (let n = \<lfloor>y\<rfloor>; d = y - of_int n
      in if d < 1 / 2 then n else if 1 / 2 < d then n + 1 else if even n then n else n + 1)"

text \<open>
  Rounding a positive number to the grid of its binade: the spacing is \<open>2^q\<close> with
  \<open>q = e - 52\<close>, and \<open>2^(- 1074)\<close> for the subnormal numbers.
\<close>

definition round_pos :: "rat \<Rightarrow> rat" where
  "round_pos x =
     (let q = max (floor_log2 x - 52) (- 1074)
      in of_int (round_half_even (x / 2 powi q)) * 2 powi q)"

text \<open>Round to nearest, ties to even; a result of \<open>2^1024\<close> or more is an infinity.\<close>

definition round_double :: "rat \<Rightarrow> pyfloat" where
  "round_double x =
     (if x = 0 then Finite 0
      else if 0 < x then (if round_pos x < 2 ^ 1024 then Finite (round_pos x) else PosInf)
      else (if round_pos (- x) < 2 ^ 1024 then Finite (- round_pos (- x)) else NegInf))"

text \<open>The finite doubles.\<close>

definition is_double :: "rat \<Rightarrow> bool" where
  "is_double x = (round_double x = Finite x)"

fun float_mul :: "pyfloat \<Rightarrow> pyfloat \<Rightarrow> pyfloat" where
  "float_mul NaN y = NaN"
| "float_mul x NaN = NaN"
| "float_mul (Finite x) (Finite y) = round_double (x * y)"
| "float_mul (Finite x) PosInf = (if 0 < x then PosInf else if x < 0 then NegInf else NaN)"
| "float_mul (Finite x) NegInf = (if 0 < x then NegInf else if x < 0 then PosInf else NaN)"
| "float_mul PosInf (Finite y) = (if 0 < y then PosInf else if y < 0 then NegInf else NaN)"
| "float_mul NegInf (Finite y) = (if 0 < y then NegInf else if y < 0 then PosInf else NaN)"
| "float_mul PosInf PosInf = PosInf"
| "float_mul PosInf NegInf = NegInf"
| "float_mul NegInf PosInf = NegInf"
| "float_mul NegInf NegInf = PosInf"

fun float_sub :: "pyfloat \<Rightarrow> pyfloat \<Rightarrow> pyfloat" where
  "float_sub NaN y = NaN"
| "float_sub x NaN = NaN"
| "float_sub (Finite x) (Finite y) = round_double (x - y)"
| "float_sub (Finite x) PosInf = NegInf"
| "float_sub (Finite x) NegInf = PosInf"
| "float_sub PosInf PosInf = NaN"
| "float_sub PosInf y = PosInf"
| "float_sub NegInf NegInf = NaN"
| "float_sub NegInf y = NegInf"

text \<open>
  The conversion of an integer and the true division of two integers are correctly
  rounded; both raise OverflowError instead of giving an infinity.
\<close>

definition float_of_int :: "int \<Rightarrow> py_exception + pyfloat" where
  "float_of_int i =
     (case round_double (of_int i) of
        Finite r \<Rightarrow> Inr (Finite r)
      | _ \<Rightarrow> Inl (PyException ''OverflowError: int too large to convert to float''))"

definition float_truediv_int :: "int \<Rightarrow> int \<Rightarrow> py_exception + pyfloat" where
  "float_truediv_int i j =
     (if j = 0 then Inl (PyException ''ZeroDivisionError: division by zero'')
      else case round_double (of_int i / of_int j) of
             Finite r \<Rightarrow> Inr (Finite r)
           | _ \<Rightarrow> Inl (PyException ''OverflowError: integer division result too large for a float''))"

text \<open>\<open>int(x)\<close> truncates towards zero.\<close>

fun float_int :: "pyfloat \<Rightarrow> py_exception + int" where
  "float_int (Finite x) = Inr (if 0 \<le> x then \<lfloor>x\<rfloor> else \<lceil>x\<rceil>)"
| "float_int NaN = Inl (PyException ''ValueError: cannot convert float NaN to integer'')"
| "float_int x = Inl (PyException ''OverflowError: cannot convert float infinity to integer'')"

fun float_eq_int :: "pyfloat \<Rightarrow> int \<Rightarrow> bool" where
  "float_eq_int (Finite x) i = (x = of_int i)"
| "float_eq_int x i = False"

definition double_ops :: "pyfloat float_ops" where
  "double_ops =
     \<lparr>f_of_int = float_of_int, f_truediv_int = float_truediv_int, f_sub = float_sub,
      f_mul = float_mul, f_int = float_int, f_eq_int = float_eq_int\<rparr>"

section \<open>A pool, a wallet and a network to run the functions on\<close>

definition demo_constants :: "pyfloat constants" where
  "demo_constants =
     \<lparr>SOL_DECIMAL = Finite 1000000000,
      TOKEN_PROGRAM_ID = ''TokenkegQfeZyiNwAJbNbGKPFXCWuBvf9Ss623VQ5DA'',
      UNIT_BUDGET = 100000,
      UNIT_PRICE = 1000000,
      WSOL = ''So11111111111111111111111111111111111111112'',
      ACCOUNT_LAYOUT_sizeof = 165\<rparr>"

definition demo_agent :: agent where
  "demo_agent = \<lparr>rpc_url = ''https://api.mainnet-beta.solana.com'', wallet = Keypair ''Payer''\<rparr>"

definition demo_pool :: pool_keys where
  "demo_pool =
     \<lparr>amm_id = ''Pool'', base_mint = ''Mint'',
      quote_mint = ''So11111111111111111111111111111111111111112'',
      base_vault = ''BaseVault'', quote_vault = ''QuoteVault''\<rparr>"

text \<open>
  A network on which everything succeeds: the pool exists, the wallet holds 40 tokens
  and no token account is found for the mint, the helpers price the swap at 20 tokens
  (buy) and 2 SOL (sell), the rent-exempt minimum is 2039280 lamports, and the
  transaction is confirmed.
\<close>

definition demo_env :: "pyfloat env" where
  "demo_env =
     \<lparr>fetch_pool_keys = (\<lambda>a. Inr (Some demo_pool)),
      get_token_balance = (\<lambda>m. Inr (Some (Finite 40))),
      get_token_reserves = (\<lambda>k. Inr (Finite 1000000, Finite 500, 6)),
      sol_for_tokens = (\<lambda>s b q. Inr (Finite 20)),
      tokens_for_sol = (\<lambda>t b q. Inr (Finite 2)),
      get_token_accounts_by_owner = (\<lambda>p m. Inr []),
      get_associated_token_address = (\<lambda>p m. ''ata-'' @ p @ ''-'' @ m),
      urandom_seed = Inr ''c2VlZHNlZWRzZWVkc2VlZHNlZWRzZWVk'',
      create_with_seed = (\<lambda>b s p. Inr (''wsol-'' @ s)),
      get_min_balance_rent_for_exempt_for_account = Inr 2039280,
      get_latest_blockhash = Inr ''Blockhash'',
      try_compile = (\<lambda>p instrs h. Inr (MessageV0 p instrs h)),
      send_transaction = (\<lambda>t. Inr ''Signature''),
      confirm_txn = (\<lambda>s. Inr True)\<rparr>"

text \<open>The same network, but the node refuses the transaction: its blockhash has expired.\<close>

definition expired_env :: "pyfloat env" where
  "expired_env =
     demo_env\<lparr>send_transaction := (\<lambda>t. Inl (PyException ''RPCException: Blockhash not found''))\<rparr>"

text \<open>The same network, but no confirmation is seen before \<open>confirm_txn\<close> gives up.\<close>

definition timeout_env :: "pyfloat env" where
  "timeout_env = demo_env\<lparr>confirm_txn := (\<lambda>s. Inr False)\<rparr>"

text \<open>
  The same network at the next call: the random source answers another seed.
\<close>

definition next_env :: "pyfloat env" where
  "next_env = demo_env\<lparr>urandom_seed := Inr ''bmV4dG5leHRuZXh0bmV4dG5leHRuZXh0''\<rparr>"

section \<open>Facts about rounding to a double\<close>

lemma bitlen_powi_bounds:
  assumes "0 < (p::int)"
  shows "(2::rat) powi (bitlen p - 1) \<le> of_int p" "of_int p < (2::rat) powi (bitlen p)"
proof -
  from assms have b: "2 ^ nat (bitlen p - 1) \<le> p" "p < 2 ^ nat (bitlen p)"
    using bitlen_bounds[of p] by auto
  have pos: "1 \<le> bitlen p"
    using assms bitlen_eq_zero_iff[of p] bitlen_nonneg[of p] by linarith
  have "(2::rat) powi (bitlen p - 1) = of_int (2 ^ nat (bitlen p - 1))"
    using pos by (simp add: power_int_nonneg_exp)
  also have "\<dots> \<le> of_int p" using b(1) by (simp only: of_int_le_iff)
  finally show "(2::rat) powi (bitlen p - 1) \<le> of_int p" .
  have "(of_int p :: rat) < of_int (2 ^ nat (bitlen p))" using b(2) by (simp only: of_int_less_iff)
  also have "\<dots> = 2 powi (bitlen p)" using pos by (simp add: power_int_nonneg_exp)
  finally show "of_int p < (2::rat) powi (bitlen p)" .
qed

lemma floor_log2_bounds:
  assumes "0 < x"
  shows "2 powi (floor_log2 x) \<le> x \<and> x < 2 powi (floor_log2 x + 1)"
proof -
  obtain p q where pq: "quotient_of x = (p, q)" by (cases "quotient_of x")
  then have x: "x = of_int p / of_int q" and q: "0 < q"
    by (simp_all add: quotient_of_div quotient_of_denom_pos)
  from assms x q have p: "0 < p" by (simp add: zero_less_divide_iff)
  define k where "k = bitlen p - bitlen q"
  have up: "x < 2 powi (k + 1)"
  proof -
    have "of_int p < (2::rat) powi (bitlen p)" using bitlen_powi_bounds[OF p] by simp
    moreover have "(2::rat) powi (bitlen q - 1) \<le> of_int q" using bitlen_powi_bounds[OF q] by simp
    moreover have "(2::rat) powi (bitlen p) = 2 powi (k + 1) * 2 powi (bitlen q - 1)"
      by (simp add: k_def power_int_add[symmetric])
    moreover have "(2::rat) powi (k + 1) * 2 powi (bitlen q - 1) \<le> 2 powi (k + 1) * of_int q"
      using calculation(2) by (intro mult_left_mono) simp_all
    ultimately have "of_int p < (2::rat) powi (k + 1) * of_int q"
      by linarith
    then show ?thesis using q by (simp add: x pos_divide_less_eq)
  qed
  have lo: "2 powi (k - 1) < x"
  proof -
    have "(2::rat) powi (bitlen p - 1) \<le> of_int p" using bitlen_powi_bounds[OF p] by simp
    moreover have "of_int q < (2::rat) powi (bitlen q)" using bitlen_powi_bounds[OF q] by simp
    moreover have "(2::rat) powi (bitlen p - 1) = 2 powi (k - 1) * 2 powi (bitlen q)"
      by (simp add: k_def power_int_add[symmetric])
    moreover have "(2::rat) powi (k - 1) * of_int q < 2 powi (k - 1) * 2 powi (bitlen q)"
      using calculation(2) by (simp add: mult_strict_left_mono)
    ultimately have "(2::rat) powi (k - 1) * of_int q < of_int p"
      by linarith
    then show ?thesis using q by (simp add: x pos_less_divide_eq)
  qed
  have fl: "floor_log2 x = (if 2 powi k \<le> x then k else k - 1)"
    by (simp add: floor_log2_def pq k_def Let_def)
  show ?thesis
  proof (cases "2 powi k \<le> x")
    case True
    with fl up show ?thesis by simp
  next
    case False
    with fl lo show ?thesis by simp
  qed
qed

lemma two_powi_less_iff: "(2::rat) powi a < 2 powi b \<longleftrightarrow> a < b"
proof
  assume l: "(2::rat) powi a < 2 powi b"
  show "a < b"
  proof (rule ccontr)
    assume "\<not> a < b"
    then have "(2::rat) powi b \<le> 2 powi a" by (intro power_int_increasing) simp_all
    with l show False by simp
  qed
next
  assume "a < b"
  then show "(2::rat) powi a < 2 powi b" by (intro power_int_strict_increasing) simp_all
qed

lemma two_powi_le_iff: "(2::rat) powi a \<le> 2 powi b \<longleftrightarrow> a \<le> b"
  using two_powi_less_iff[of b a] by (simp add: not_less[symmetric])

lemma floor_log2_eqI:
  assumes "2 powi e \<le> x" "x < 2 powi (e + 1)"
  shows "floor_log2 x = e"
proof -
  have x: "0 < x" using assms(1) by (smt (verit) zero_less_power_int zero_less_numeral order_less_le_trans)
  note b = floor_log2_bounds[OF x]
  have "(2::rat) powi e < 2 powi (floor_log2 x + 1)" using assms(1) b by linarith
  then have 1: "e < floor_log2 x + 1" by (simp only: two_powi_less_iff)
  have "(2::rat) powi (floor_log2 x) < 2 powi (e + 1)" using assms(2) b by linarith
  then have 2: "floor_log2 x < e + 1" by (simp only: two_powi_less_iff)
  from 1 2 show ?thesis by linarith
qed

lemma round_half_even_of_int [simp]: "round_half_even (of_int n) = n"
  by (simp add: round_half_even_def)


lemma round_pos_dyadic:
  assumes m: "0 < m" "m < 2 ^ 53" and q: "- 1074 \<le> q"
  shows "round_pos (of_int m * 2 powi q) = of_int m * 2 powi q"
proof -
  let ?x = "of_int m * (2::rat) powi q"
  have x: "0 < ?x" using m by simp
  define e where "e = floor_log2 ?x"
  note b = floor_log2_bounds[OF x, folded e_def]
  have "(of_int m :: rat) < of_int (2 ^ 53)" using m(2) by (simp only: of_int_less_iff)
  then have "(of_int m :: rat) < 2 powi 53" by simp
  then have "?x < 2 powi 53 * 2 powi q" by (intro mult_strict_right_mono) simp_all
  then have "?x < 2 powi (53 + q)" by (simp add: power_int_add)
  with b have "(2::rat) powi e < 2 powi (53 + q)" by linarith
  then have e: "e - 52 \<le> q" by (simp add: two_powi_less_iff)
  define q' where "q' = max (e - 52) (- 1074)"
  have q': "q' \<le> q" using e q by (simp add: q'_def)
  have "?x / 2 powi q' = of_int m * 2 powi (q - q')"
    by (simp add: power_int_diff)
  also have "\<dots> = of_int (m * 2 ^ nat (q - q'))"
    using q' by (simp add: power_int_nonneg_exp)
  finally have "round_half_even (?x / 2 powi q') = m * 2 ^ nat (q - q')"
    by (simp only: round_half_even_of_int)
  then have "round_pos ?x = of_int (m * 2 ^ nat (q - q')) * 2 powi q'"
    by (simp add: round_pos_def e_def q'_def Let_def)
  also have "\<dots> = of_int m * (2 powi (q - q') * 2 powi q')"
    using q' by (simp add: power_int_nonneg_exp)
  also have "\<dots> = ?x" by (simp add: power_int_add[symmetric])
  finally show ?thesis .
qed

lemma dyadic_less_overflow:
  assumes "m < 2 ^ 53" "q \<le> 971"
  shows "of_int m * (2::rat) powi q < 2 ^ 1024"
proof (cases "0 < m")
  case True
  have "(of_int m :: rat) < of_int (2 ^ 53)" using assms(1) by (simp only: of_int_less_iff)
  then have "(of_int m :: rat) < 2 powi 53" by simp
  then have "of_int m * (2::rat) powi q < 2 powi 53 * 2 powi q"
    by (intro mult_strict_right_mono) simp_all
  also have "\<dots> = 2 powi (53 + q)" by (simp add: power_int_add)
  also have "\<dots> \<le> 2 powi 1024" using assms(2) by (simp only: two_powi_le_iff)
  finally show ?thesis by simp
next
  case False
  then have "of_int m * (2::rat) powi q \<le> 0" by (simp add: mult_le_0_iff)
  moreover have "(0::rat) < 2 ^ 1024" by (rule zero_less_power) simp
  ultimately show ?thesis by (rule le_less_trans)
qed

lemma round_double_dyadic:
  assumes "\<bar>m\<bar> < 2 ^ 53" "- 1074 \<le> q" "q \<le> 971"
  shows "round_double (of_int m * 2 powi q) = Finite (of_int m * 2 powi q)"
proof -
  consider "m = 0" | "0 < m" | "m < 0" by linarith
  then show ?thesis
  proof cases
    case 1
    then show ?thesis by (simp add: round_double_def)
  next
    case 2
    with assms have "round_pos (of_int m * 2 powi q) = of_int m * 2 powi q"
      by (intro round_pos_dyadic) simp_all
    moreover have "of_int m * (2::rat) powi q < 2 ^ 1024"
      using assms by (intro dyadic_less_overflow) simp_all
    moreover have "0 < of_int m * (2::rat) powi q" using 2 by simp
    ultimately show ?thesis by (simp add: round_double_def)
  next
    case 3
    with assms have "round_pos (of_int (- m) * 2 powi q) = of_int (- m) * 2 powi q"
      by (intro round_pos_dyadic) simp_all
    moreover have "of_int (- m) * (2::rat) powi q < 2 ^ 1024"
      using assms by (intro dyadic_less_overflow) simp_all
    moreover have "of_int m * (2::rat) powi q < 0" using 3 by (simp add: mult_less_0_iff)
    ultimately show ?thesis by (simp add: round_double_def)
  qed
qed

lemma round_double_of_int:
  assumes "\<bar>n\<bar> < 2 ^ 53"
  shows "round_double (of_int n) = Finite (of_int n)"
  using round_double_dyadic[of n 0] assms by simp

lemma round_double_numeral:
  "numeral k < (2::int) ^ 53 \<Longrightarrow> round_double (numeral k) = Finite (numeral k)"
  using round_double_of_int[of "numeral k"] by simp

lemma round_double_neg_numeral:
  "numeral k < (2::int) ^ 53 \<Longrightarrow> round_double (- numeral k) = Finite (- numeral k)"
  using round_double_of_int[of "- numeral k"] by simp

lemma round_double_0: "round_double 0 = Finite 0"
  by (simp add: round_double_def)

lemma round_double_1: "round_double 1 = Finite 1"
  using round_double_of_int[of 1] by simp

lemma round_double_neg_1: "round_double (- 1) = Finite (- 1)"
  using round_double_of_int[of "- 1"] by simp

lemma round_double_half: "round_double (1 / 2) = Finite (1 / 2)"
  using round_double_dyadic[of 1 "- 1"] by (simp add: power_int_minus_divide)

lemmas round_double_exact =
  round_double_numeral round_double_neg_numeral round_double_0 round_double_1
  round_double_neg_1 round_double_half

lemma round_half_even_cases:
  "round_half_even u = \<lfloor>u\<rfloor> \<or> round_half_even u = \<lfloor>u\<rfloor> + 1"
  by (simp add: round_half_even_def Let_def)

lemma round_half_even_mono:
  assumes "u \<le> v"
  shows "round_half_even u \<le> round_half_even v"
proof (cases "\<lfloor>u\<rfloor> < \<lfloor>v\<rfloor>")
  case True
  have "round_half_even u \<le> \<lfloor>u\<rfloor> + 1" using round_half_even_cases[of u] by linarith
  moreover have "\<lfloor>v\<rfloor> \<le> round_half_even v" using round_half_even_cases[of v] by linarith
  ultimately show ?thesis using True by linarith
next
  case False
  moreover have "\<lfloor>u\<rfloor> \<le> \<lfloor>v\<rfloor>" using assms by (rule floor_mono)
  ultimately have eq: "\<lfloor>u\<rfloor> = \<lfloor>v\<rfloor>" by linarith
  then have "u - of_int \<lfloor>u\<rfloor> \<le> v - of_int \<lfloor>v\<rfloor>" using assms by simp
  then show ?thesis
    by (auto simp: round_half_even_def Let_def eq)
qed

lemma round_half_even_nonneg: "0 \<le> u \<Longrightarrow> 0 \<le> round_half_even u"
  using round_half_even_mono[of 0 u] round_half_even_of_int[of 0] by simp

lemma floor_log2_mono:
  assumes "0 < x" "x \<le> y"
  shows "floor_log2 x \<le> floor_log2 y"
proof -
  have y: "0 < y" using assms by linarith
  have "(2::rat) powi floor_log2 x \<le> x" using floor_log2_bounds[OF assms(1)] by simp
  also have "\<dots> \<le> y" by fact
  also have "\<dots> < 2 powi (floor_log2 y + 1)" using floor_log2_bounds[OF y] by simp
  finally have "floor_log2 x < floor_log2 y + 1" by (simp only: two_powi_less_iff)
  then show ?thesis by simp
qed

lemma round_pos_nonneg: "0 < x \<Longrightarrow> 0 \<le> round_pos x"
  by (simp add: round_pos_def Let_def round_half_even_nonneg)

lemma round_pos_mono:
  assumes "0 < x" "x \<le> y"
  shows "round_pos x \<le> round_pos y"
proof -
  have y: "0 < y" using assms by linarith
  define ex where "ex = floor_log2 x"
  define ey where "ey = floor_log2 y"
  define qx where "qx = max (ex - 52) (- 1074)"
  define qy where "qy = max (ey - 52) (- 1074)"
  have rx: "round_pos x = of_int (round_half_even (x / 2 powi qx)) * 2 powi qx"
    by (simp add: round_pos_def qx_def ex_def Let_def)
  have ry: "round_pos y = of_int (round_half_even (y / 2 powi qy)) * 2 powi qy"
    by (simp add: round_pos_def qy_def ey_def Let_def)
  have e: "ex \<le> ey" unfolding ex_def ey_def using assms by (rule floor_log2_mono)
  then have q: "qx \<le> qy" by (simp add: qx_def qy_def)
  show ?thesis
  proof (cases "qx = qy")
    case True
    have "x / 2 powi qy \<le> y / 2 powi qy" using assms(2) by (simp add: divide_right_mono)
    then have "round_half_even (x / 2 powi qy) \<le> round_half_even (y / 2 powi qy)"
      by (rule round_half_even_mono)
    then have "(of_int (round_half_even (x / 2 powi qy)) :: rat) \<le> of_int (round_half_even (y / 2 powi qy))"
      by (simp only: of_int_le_iff)
    then show ?thesis unfolding rx ry True by (intro mult_right_mono) simp_all
  next
    case False
    with q have lt: "qx < qy" by simp
    have qx_low: "- 1074 \<le> qx" by (simp add: qx_def)
    from lt qx_low have qy_eq: "qy = ey - 52" by (simp add: qy_def max_def split: if_splits)
    have ex_lt: "ex < ey" using lt qy_eq by (simp add: qx_def)
    define B :: rat where "B = 2 powi ey"
    have B_y: "B \<le> y" unfolding B_def ey_def using floor_log2_bounds[OF y] by simp
    have "x < 2 powi (ex + 1)" unfolding ex_def using floor_log2_bounds[OF assms(1)] by simp
    also have "\<dots> \<le> B" unfolding B_def using ex_lt by (simp add: two_powi_le_iff)
    finally have x_B: "x \<le> B" by simp
    have up: "B \<le> round_pos y"
    proof -
      have "B / 2 powi qy = 2 powi 52" unfolding B_def qy_eq by (simp add: power_int_diff)
      also have "\<dots> = of_int (2 ^ 52)" by simp
      finally have Bq: "B / 2 powi qy = of_int (2 ^ 52)" .
      have "B / 2 powi qy \<le> y / 2 powi qy" using B_y by (simp add: divide_right_mono)
      then have "round_half_even (B / 2 powi qy) \<le> round_half_even (y / 2 powi qy)"
        by (rule round_half_even_mono)
      then have "2 ^ 52 \<le> round_half_even (y / 2 powi qy)"
        unfolding Bq by (simp only: round_half_even_of_int)
      then have "(of_int (2 ^ 52) :: rat) \<le> of_int (round_half_even (y / 2 powi qy))"
        by (simp only: of_int_le_iff)
      then have "of_int (2 ^ 52) * 2 powi qy \<le> round_pos y"
        unfolding ry by (intro mult_right_mono) simp_all
      moreover have "of_int (2 ^ 52) * 2 powi qy = B"
        using Bq by (simp add: field_simps)
      ultimately show ?thesis by simp
    qed
    have down: "round_pos x \<le> B"
    proof -
      have nn: "0 \<le> ey - qx" using lt qy_eq by simp
      have "B / 2 powi qx = 2 powi (ey - qx)" unfolding B_def by (simp add: power_int_diff)
      also have "\<dots> = of_int (2 ^ nat (ey - qx))" using nn by (simp add: power_int_nonneg_exp)
      finally have Bq: "B / 2 powi qx = of_int (2 ^ nat (ey - qx))" .
      have "x / 2 powi qx \<le> B / 2 powi qx" using x_B by (simp add: divide_right_mono)
      then have "round_half_even (x / 2 powi qx) \<le> round_half_even (B / 2 powi qx)"
        by (rule round_half_even_mono)
      then have "round_half_even (x / 2 powi qx) \<le> 2 ^ nat (ey - qx)"
        unfolding Bq by (simp only: round_half_even_of_int)
      then have "(of_int (round_half_even (x / 2 powi qx)) :: rat) \<le> of_int (2 ^ nat (ey - qx))"
        by (simp only: of_int_le_iff)
      then have "round_pos x \<le> of_int (2 ^ nat (ey - qx)) * 2 powi qx"
        unfolding rx by (intro mult_right_mono) simp_all
      moreover have "of_int (2 ^ nat (ey - qx)) * 2 powi qx = B"
        using Bq by (simp add: field_simps)
      ultimately show ?thesis by simp
    qed
    from up down show ?thesis by linarith
  qed
qed

lemma round_double_mono_finite:
  assumes "0 \<le> x" "x \<le> y" "round_double y = Finite fy"
  obtains fx where "round_double x = Finite fx" "0 \<le> fx" "fx \<le> fy"
proof (cases "x = 0")
  case True
  have "0 \<le> fy"
  proof (cases "y = 0")
    case True
    with assms(3) show ?thesis by (simp add: round_double_def)
  next
    case False
    with assms have y: "0 < y" by linarith
    with assms(3) have "fy = round_pos y" by (simp add: round_double_def split: if_splits)
    with y show ?thesis by (simp add: round_pos_nonneg)
  qed
  with True that[of 0] show ?thesis by (simp add: round_double_def)
next
  case False
  with assms have x: "0 < x" and y: "0 < y" by linarith+
  from y assms(3) have fy: "fy = round_pos y" "round_pos y < 2 ^ 1024"
    by (simp_all add: round_double_def split: if_splits)
  have le: "round_pos x \<le> round_pos y" using x assms(2) by (rule round_pos_mono)
  with fy have "round_pos x < 2 ^ 1024" by linarith
  with x have "round_double x = Finite (round_pos x)" by (simp add: round_double_def)
  with that[of "round_pos x"] le fy x show ?thesis by (simp add: round_pos_nonneg)
qed

lemma float_of_int_Inr:
  assumes "float_of_int i = Inr f"
  obtains r where "f = Finite r" "round_double (of_int i) = Finite r"
  using assms by (cases "round_double (of_int i)") (auto simp: float_of_int_def)

lemma float_int_Inr:
  assumes "float_int f = Inr n"
  obtains r where "f = Finite r" "n = (if 0 \<le> r then \<lfloor>r\<rfloor> else \<lceil>r\<rceil>)"
  using assms by (cases f) auto

lemma slippage_adjustment_range:
  assumes "0 \<le> slippage" "slippage \<le> 100"
  obtains adj where "slippage_adjustment double_ops slippage = Inr (Finite adj)"
    "0 \<le> adj" "adj \<le> 1" "slippage = 0 \<longrightarrow> adj = 1"
proof -
  have one: "round_double 1 = Finite 1" by (rule round_double_1)
  have "(0::rat) \<le> of_int slippage / of_int 100" "(of_int slippage :: rat) / of_int 100 \<le> 1"
    using assms by simp_all
  then obtain t where t: "round_double (of_int slippage / of_int 100) = Finite t" "0 \<le> t" "t \<le> 1"
    using round_double_mono_finite[OF _ _ one] by blast
  have t0: "t = 0" if "slippage = 0" using that t(1) by (simp add: round_double_0)
  from t have "(0::rat) \<le> 1 - t" "1 - t \<le> 1" by simp_all
  then obtain adj where adj: "round_double (1 - t) = Finite adj" "0 \<le> adj" "adj \<le> 1"
    using round_double_mono_finite[OF _ _ one] by blast
  have a1: "slippage = 0 \<longrightarrow> adj = 1" using t0 adj(1) by (auto simp: round_double_1)
  have "slippage_adjustment double_ops slippage = Inr (Finite adj)"
    using t(1) adj(1) one
    by (simp add: slippage_adjustment_def double_ops_def float_truediv_int_def float_of_int_def
          bind_exn_def)
  with adj a1 that show ?thesis by blast
qed

lemma scaled_product_le:
  assumes a: "is_double a" "0 \<le> a" and adj: "0 \<le> adj" "adj \<le> 1" and S: "0 \<le> S"
    and P: "round_double (a * S) = Finite P"
  obtains p1 p2 where "round_double (a * adj) = Finite p1" "round_double (p1 * S) = Finite p2"
    "0 \<le> p2" "p2 \<le> P" "adj = 1 \<longrightarrow> p2 = P"
proof -
  have fa: "round_double a = Finite a" using a(1) by (simp add: is_double_def)
  have "0 \<le> a * adj" "a * adj \<le> a"
    using a(2) adj by (simp_all add: mult_left_le)
  then obtain p1 where p1: "round_double (a * adj) = Finite p1" "0 \<le> p1" "p1 \<le> a"
    using round_double_mono_finite[OF _ _ fa] by blast
  have "0 \<le> p1 * S" "p1 * S \<le> a * S" using p1 S by (simp_all add: mult_right_mono)
  then obtain p2 where p2: "round_double (p1 * S) = Finite p2" "0 \<le> p2" "p2 \<le> P"
    using round_double_mono_finite[OF _ _ P] by blast
  have "adj = 1 \<longrightarrow> p2 = P"
  proof
    assume "adj = 1"
    with p1(1) fa have "p1 = a" by simp
    with p2(1) P show "p2 = P" by simp
  qed
  with p1 p2 that show ?thesis by blast
qed

lemma floor_mono_nonneg:
  fixes p2 P :: rat
  assumes "0 \<le> p2" "p2 \<le> P"
  shows "0 \<le> \<lfloor>p2\<rfloor>" "\<lfloor>p2\<rfloor> \<le> \<lfloor>P\<rfloor>"
  using assms by (simp_all add: floor_mono)

section \<open>Facts about the steps of a run\<close>

lemma fst_return_io [simp]: "fst (return_io x) = Inr x"
  and snd_return_io [simp]: "snd (return_io x) = []"
  by (simp_all add: return_io_def)

lemma fst_pure_io [simp]: "fst (pure_io r) = r"
  and snd_pure_io [simp]: "snd (pure_io r) = []"
  by (simp_all add: pure_io_def)

lemma fst_call_io [simp]: "fst (call_io c r) = r"
  and snd_call_io [simp]: "snd (call_io c r) = [c]"
  by (simp_all add: call_io_def)

lemma fst_bind_io: "fst (bind_io m k) = (case fst m of Inl e \<Rightarrow> Inl e | Inr x \<Rightarrow> fst (k x))"
  by (cases m) (simp add: bind_io_def split: sum.split prod.split)

lemma snd_bind_io: "snd (bind_io m k) = (case fst m of Inl e \<Rightarrow> snd m | Inr x \<Rightarrow> snd m @ snd (k x))"
  by (cases m) (simp add: bind_io_def split: sum.split prod.split)

lemma fst_except_return_False:
  "fst (except_return_False m) = (case fst m of Inl e \<Rightarrow> Inr False | Inr b \<Rightarrow> Inr b)"
  by (cases m) (simp add: except_return_False_def split: sum.split)

lemma snd_except_return_False [simp]: "snd (except_return_False m) = snd m"
  by (cases m) (simp add: except_return_False_def split: sum.split)

lemma compile_send_confirm_bundle:
  "CallTryCompile p instrs h \<in> set (snd (compile_send_confirm env kp instructions))
     \<Longrightarrow> instrs = instructions \<and> p = pubkey kp \<and> get_latest_blockhash env = Inr h"
  by (auto simp: compile_send_confirm_def snd_bind_io split: sum.splits)

lemma buy_compiled_bundle:
  assumes "CallTryCompile p instrs h \<in> set (snd (buy_try_block fo c env agent addr sol_in slippage))"
  obtains pool_keys amount_in reserves amount_out adj minimum_amount_out token_account_check
    seed_text wsol_token_account balance_needed
  where "fetch_pool_keys env addr = Inr (Some pool_keys)"
    and "f_int fo (f_mul fo sol_in (SOL_DECIMAL c)) = Inr amount_in"
    and "get_token_reserves env pool_keys = Inr reserves"
    and "sol_for_tokens env sol_in (fst reserves) (fst (snd reserves)) = Inr amount_out"
    and "slippage_adjustment fo slippage = Inr adj"
    and "buy_minimum_amount_out fo amount_out adj (snd (snd reserves)) = Inr minimum_amount_out"
    and "get_token_accounts_by_owner env (pubkey (wallet agent))
           (pool_mint c pool_keys)
         = Inr token_account_check"
    and "urandom_seed env = Inr seed_text"
    and "create_with_seed env (pubkey (wallet agent)) seed_text (TOKEN_PROGRAM_ID c) = Inr wsol_token_account"
    and "get_min_balance_rent_for_exempt_for_account env = Inr balance_needed"
    and "instrs =
           buy_instructions c
             (CreateAccountWithSeed
               \<lparr>from_pubkey = pubkey (wallet agent), to_pubkey = wsol_token_account,
                base = pubkey (wallet agent), seed = seed_text,
                lamports = balance_needed + amount_in, space = ACCOUNT_LAYOUT_sizeof c,
                owner = TOKEN_PROGRAM_ID c\<rparr>)
             (InitializeAccount (TOKEN_PROGRAM_ID c) wsol_token_account (WSOL c) (pubkey (wallet agent)))
             (case token_account_check of
                first # others \<Rightarrow> None
              | [] \<Rightarrow> Some (CreateAssociatedTokenAccount (pubkey (wallet agent)) (pubkey (wallet agent))
                   (pool_mint c pool_keys)))
             (Swap amount_in minimum_amount_out wsol_token_account
                (case token_account_check of
                   first # others \<Rightarrow> first
                 | [] \<Rightarrow> get_associated_token_address env (pubkey (wallet agent))
                     (pool_mint c pool_keys))
                pool_keys (wallet agent))
             (CloseAccount (TOKEN_PROGRAM_ID c) wsol_token_account (pubkey (wallet agent)) (pubkey (wallet agent)))"
  using assms
  unfolding buy_try_block_def Let_def
  by (auto simp: snd_bind_io split: sum.splits option.splits list.splits prod.splits
        dest!: compile_send_confirm_bundle)


lemma sell_compiled_bundle:
  assumes "CallTryCompile p instrs h \<in> set (snd (sell_try_block fo c env agent addr percentage slippage))"
  obtains pool_keys whole_balance fraction reserves amount_out adj minimum_amount_out amount_in
    seed_text wsol_token_account balance_needed
  where "1 \<le> percentage" and "percentage \<le> 100"
    and "fetch_pool_keys env addr = Inr (Some pool_keys)"
    and "get_token_balance env (pool_mint c pool_keys) = Inr (Some whole_balance)"
    and "\<not> f_eq_int fo whole_balance 0"
    and "f_truediv_int fo percentage 100 = Inr fraction"
    and "get_token_reserves env pool_keys = Inr reserves"
    and "tokens_for_sol env (f_mul fo whole_balance fraction) (fst reserves) (fst (snd reserves))
         = Inr amount_out"
    and "slippage_adjustment fo slippage = Inr adj"
    and "sell_minimum_amount_out fo c amount_out adj = Inr minimum_amount_out"
    and "bind_exn (f_mul_int fo (f_mul fo whole_balance fraction) (10 ^ snd (snd reserves))) (f_int fo)
         = Inr amount_in"
    and "urandom_seed env = Inr seed_text"
    and "create_with_seed env (pubkey (wallet agent)) seed_text (TOKEN_PROGRAM_ID c) = Inr wsol_token_account"
    and "get_min_balance_rent_for_exempt_for_account env = Inr balance_needed"
    and "instrs =
           sell_instructions c percentage
             (CreateAccountWithSeed
               \<lparr>from_pubkey = pubkey (wallet agent), to_pubkey = wsol_token_account,
                base = pubkey (wallet agent), seed = seed_text,
                lamports = balance_needed, space = ACCOUNT_LAYOUT_sizeof c,
                owner = TOKEN_PROGRAM_ID c\<rparr>)
             (InitializeAccount (TOKEN_PROGRAM_ID c) wsol_token_account (WSOL c) (pubkey (wallet agent)))
             (Swap amount_in minimum_amount_out
                (get_associated_token_address env (pubkey (wallet agent)) (pool_mint c pool_keys))
                wsol_token_account pool_keys (wallet agent))
             (CloseAccount (TOKEN_PROGRAM_ID c) wsol_token_account (pubkey (wallet agent)) (pubkey (wallet agent)))
             (CloseAccount (TOKEN_PROGRAM_ID c)
                (get_associated_token_address env (pubkey (wallet agent)) (pool_mint c pool_keys))
                (pubkey (wallet agent)) (pubkey (wallet agent)))"
  using assms
  unfolding sell_try_block_def Let_def
  by (auto simp: snd_bind_io split: sum.splits option.splits list.splits prod.splits if_splits
        dest!: compile_send_confirm_bundle)

lemma assembled_bundles_iff:
  "instrs \<in> set (assembled_bundles tr) \<longleftrightarrow> (\<exists>p h. CallTryCompile p instrs h \<in> set tr)"
  by (induction tr rule: assembled_bundles.induct) auto

lemma buy_bundle_shape:
  assumes "instrs \<in> set (assembled_bundles (snd (buy_with_raydium fo c env agent addr sol_in slippage)))"
  shows "\<exists>pool_keys amount_in base_reserve quote_reserve token_decimal amount_out adj
          minimum_amount_out token_account_check seed_text wsol_token_account balance_needed.
        fetch_pool_keys env addr = Inr (Some pool_keys)
        \<and> f_int fo (f_mul fo sol_in (SOL_DECIMAL c)) = Inr amount_in
        \<and> get_token_reserves env pool_keys = Inr (base_reserve, quote_reserve, token_decimal)
        \<and> sol_for_tokens env sol_in base_reserve quote_reserve = Inr amount_out
        \<and> slippage_adjustment fo slippage = Inr adj
        \<and> buy_minimum_amount_out fo amount_out adj token_decimal = Inr minimum_amount_out
        \<and> get_token_accounts_by_owner env (pubkey (wallet agent)) (pool_mint c pool_keys)
            = Inr token_account_check
        \<and> urandom_seed env = Inr seed_text
        \<and> create_with_seed env (pubkey (wallet agent)) seed_text (TOKEN_PROGRAM_ID c)
            = Inr wsol_token_account
        \<and> get_min_balance_rent_for_exempt_for_account env = Inr balance_needed
        \<and> instrs =
            [SetComputeUnitLimit (UNIT_BUDGET c),
             SetComputeUnitPrice (UNIT_PRICE c),
             CreateAccountWithSeed
               \<lparr>from_pubkey = pubkey (wallet agent), to_pubkey = wsol_token_account,
                base = pubkey (wallet agent), seed = seed_text,
                lamports = balance_needed + amount_in, space = ACCOUNT_LAYOUT_sizeof c,
                owner = TOKEN_PROGRAM_ID c\<rparr>,
             InitializeAccount (TOKEN_PROGRAM_ID c) wsol_token_account (WSOL c) (pubkey (wallet agent))]
            @ (case token_account_check of
                 first # others \<Rightarrow> []
               | [] \<Rightarrow> [CreateAssociatedTokenAccount (pubkey (wallet agent)) (pubkey (wallet agent))
                         (pool_mint c pool_keys)])
            @ [Swap amount_in minimum_amount_out wsol_token_account
                 (case token_account_check of
                    first # others \<Rightarrow> first
                  | [] \<Rightarrow> get_associated_token_address env (pubkey (wallet agent))
                           (pool_mint c pool_keys))
                 pool_keys (wallet agent),
               CloseAccount (TOKEN_PROGRAM_ID c) wsol_token_account (pubkey (wallet agent))
                 (pubkey (wallet agent))]"
proof -
  from assms obtain p h where
    "CallTryCompile p instrs h \<in> set (snd (buy_try_block fo c env agent addr sol_in slippage))"
    by (auto simp: assembled_bundles_iff buy_with_raydium_def)
  then show ?thesis
  proof (rule buy_compiled_bundle)
    fix pool_keys amount_in reserves amount_out adj minimum_amount_out token_account_check
      seed_text wsol_token_account balance_needed
    assume a: "fetch_pool_keys env addr = Inr (Some pool_keys)"
      "f_int fo (f_mul fo sol_in (SOL_DECIMAL c)) = Inr amount_in"
      "get_token_reserves env pool_keys = Inr reserves"
      "sol_for_tokens env sol_in (fst reserves) (fst (snd reserves)) = Inr amount_out"
      "slippage_adjustment fo slippage = Inr adj"
      "buy_minimum_amount_out fo amount_out adj (snd (snd reserves)) = Inr minimum_amount_out"
      "get_token_accounts_by_owner env (pubkey (wallet agent)) (pool_mint c pool_keys)
         = Inr token_account_check"
      "urandom_seed env = Inr seed_text"
      "create_with_seed env (pubkey (wallet agent)) seed_text (TOKEN_PROGRAM_ID c) = Inr wsol_token_account"
      "get_min_balance_rent_for_exempt_for_account env = Inr balance_needed"
    assume i: "instrs =
           buy_instructions c
             (CreateAccountWithSeed
               \<lparr>from_pubkey = pubkey (wallet agent), to_pubkey = wsol_token_account,
                base = pubkey (wallet agent), seed = seed_text,
                lamports = balance_needed + amount_in, space = ACCOUNT_LAYOUT_sizeof c,
                owner = TOKEN_PROGRAM_ID c\<rparr>)
             (InitializeAccount (TOKEN_PROGRAM_ID c) wsol_token_account (WSOL c) (pubkey (wallet agent)))
             (case token_account_check of
                first # others \<Rightarrow> None
              | [] \<Rightarrow> Some (CreateAssociatedTokenAccount (pubkey (wallet agent)) (pubkey (wallet agent))
                   (pool_mint c pool_keys)))
             (Swap amount_in minimum_amount_out wsol_token_account
                (case token_account_check of
                   first # others \<Rightarrow> first
                 | [] \<Rightarrow> get_associated_token_address env (pubkey (wallet agent))
                     (pool_mint c pool_keys))
                pool_keys (wallet agent))
             (CloseAccount (TOKEN_PROGRAM_ID c) wsol_token_account (pubkey (wallet agent)) (pubkey (wallet agent)))"
    have r: "reserves = (fst reserves, fst (snd reserves), snd (snd reserves))" by simp
    show ?thesis
      apply (rule exI[of _ pool_keys], rule exI[of _ amount_in], rule exI[of _ "fst reserves"],
             rule exI[of _ "fst (snd reserves)"], rule exI[of _ "snd (snd reserves)"],
             rule exI[of _ amount_out], rule exI[of _ adj], rule exI[of _ minimum_amount_out],
             rule exI[of _ token_account_check], rule exI[of _ seed_text],
             rule exI[of _ wsol_token_account], rule exI[of _ balance_needed])
      using a i by (simp add: buy_instructions_def split: list.split)
  qed
qed

lemma sell_bundle_shape:
  assumes "instrs \<in> set (assembled_bundles (snd (sell_with_raydium fo c env agent addr percentage slippage)))"
  shows "\<exists>pool_keys whole_balance fraction base_reserve quote_reserve token_decimal amount_out adj
          minimum_amount_out amount_in seed_text wsol_token_account balance_needed.
        1 \<le> percentage \<and> percentage \<le> 100
        \<and> fetch_pool_keys env addr = Inr (Some pool_keys)
        \<and> get_token_balance env (pool_mint c pool_keys) = Inr (Some whole_balance)
        \<and> \<not> f_eq_int fo whole_balance 0
        \<and> f_truediv_int fo percentage 100 = Inr fraction
        \<and> get_token_reserves env pool_keys = Inr (base_reserve, quote_reserve, token_decimal)
        \<and> tokens_for_sol env (f_mul fo whole_balance fraction) base_reserve quote_reserve
            = Inr amount_out
        \<and> slippage_adjustment fo slippage = Inr adj
        \<and> sell_minimum_amount_out fo c amount_out adj = Inr minimum_amount_out
        \<and> bind_exn (f_mul_int fo (f_mul fo whole_balance fraction) (10 ^ token_decimal)) (f_int fo)
            = Inr amount_in
        \<and> urandom_seed env = Inr seed_text
        \<and> create_with_seed env (pubkey (wallet agent)) seed_text (TOKEN_PROGRAM_ID c)
            = Inr wsol_token_account
        \<and> get_min_balance_rent_for_exempt_for_account env = Inr balance_needed
        \<and> instrs =
            [SetComputeUnitLimit (UNIT_BUDGET c),
             SetComputeUnitPrice (UNIT_PRICE c),
             CreateAccountWithSeed
               \<lparr>from_pubkey = pubkey (wallet agent), to_pubkey = wsol_token_account,
                base = pubkey (wallet agent), seed = seed_text,
                lamports = balance_needed, space = ACCOUNT_LAYOUT_sizeof c,
                owner = TOKEN_PROGRAM_ID c\<rparr>,
             InitializeAccount (TOKEN_PROGRAM_ID c) wsol_token_account (WSOL c) (pubkey (wallet agent)),
             Swap amount_in minimum_amount_out
               (get_associated_token_address env (pubkey (wallet agent)) (pool_mint c pool_keys))
               wsol_token_account pool_keys (wallet agent),
             CloseAccount (TOKEN_PROGRAM_ID c) wsol_token_account (pubkey (wallet agent))
               (pubkey (wallet agent))]
            @ (if percentage = 100
               then [CloseAccount (TOKEN_PROGRAM_ID c)
                       (get_associated_token_address env (pubkey (wallet agent)) (pool_mint c pool_keys))
                       (pubkey (wallet agent)) (pubkey (wallet agent))]
               else [])"
proof -
  from assms obtain p h where
    "CallTryCompile p instrs h \<in> set (snd (sell_try_block fo c env agent addr percentage slippage))"
    by (auto simp: assembled_bundles_iff sell_with_raydium_def)
  then show ?thesis
  proof (rule sell_compiled_bundle)
    fix pool_keys whole_balance fraction reserves amount_out adj minimum_amount_out amount_in
      seed_text wsol_token_account balance_needed
    assume a: "1 \<le> percentage" "percentage \<le> 100"
      "fetch_pool_keys env addr = Inr (Some pool_keys)"
      "get_token_balance env (pool_mint c pool_keys) = Inr (Some whole_balance)"
      "\<not> f_eq_int fo whole_balance 0"
      "f_truediv_int fo percentage 100 = Inr fraction"
      "get_token_reserves env pool_keys = Inr reserves"
      "tokens_for_sol env (f_mul fo whole_balance fraction) (fst reserves) (fst (snd reserves))
         = Inr amount_out"
      "slippage_adjustment fo slippage = Inr adj"
      "sell_minimum_amount_out fo c amount_out adj = Inr minimum_amount_out"
      "bind_exn (f_mul_int fo (f_mul fo whole_balance fraction) (10 ^ snd (snd reserves))) (f_int fo)
         = Inr amount_in"
      "urandom_seed env = Inr seed_text"
      "create_with_seed env (pubkey (wallet agent)) seed_text (TOKEN_PROGRAM_ID c) = Inr wsol_token_account"
      "get_min_balance_rent_for_exempt_for_account env = Inr balance_needed"
    assume i: "instrs =
           sell_instructions c percentage
             (CreateAccountWithSeed
               \<lparr>from_pubkey = pubkey (wallet agent), to_pubkey = wsol_token_account,
                base = pubkey (wallet agent), seed = seed_text,
                lamports = balance_needed, space = ACCOUNT_LAYOUT_sizeof c,
                owner = TOKEN_PROGRAM_ID c\<rparr>)
             (InitializeAccount (TOKEN_PROGRAM_ID c) wsol_token_account (WSOL c) (pubkey (wallet agent)))
             (Swap amount_in minimum_amount_out
                (get_associated_token_address env (pubkey (wallet agent)) (pool_mint c pool_keys))
                wsol_token_account pool_keys (wallet agent))
             (CloseAccount (TOKEN_PROGRAM_ID c) wsol_token_account (pubkey (wallet agent)) (pubkey (wallet agent)))
             (CloseAccount (TOKEN_PROGRAM_ID c)
                (get_associated_token_address env (pubkey (wallet agent)) (pool_mint c pool_keys))
                (pubkey (wallet agent)) (pubkey (wallet agent)))"
    show ?thesis
      apply (rule exI[of _ pool_keys], rule exI[of _ whole_balance], rule exI[of _ fraction],
             rule exI[of _ "fst reserves"],
             rule exI[of _ "fst (snd reserves)"], rule exI[of _ "snd (snd reserves)"],
             rule exI[of _ amount_out], rule exI[of _ adj], rule exI[of _ minimum_amount_out],
             rule exI[of _ amount_in], rule exI[of _ seed_text],
             rule exI[of _ wsol_token_account], rule exI[of _ balance_needed])
      using a i by (simp add: sell_instructions_def)
  qed
qed


lemma buy_bundle_seed:
  assumes "instrs \<in> set (assembled_bundles (snd (buy_with_raydium fo c env agent addr sol_in slippage)))"
  shows "CallUrandom 24 \<in> set (snd (buy_with_raydium fo c env agent addr sol_in slippage))"
proof -
  from assms obtain p h where
    "CallTryCompile p instrs h \<in> set (snd (buy_try_block fo c env agent addr sol_in slippage))"
    by (auto simp: assembled_bundles_iff buy_with_raydium_def)
  then have "CallUrandom 24 \<in> set (snd (buy_try_block fo c env agent addr sol_in slippage))"
    unfolding buy_try_block_def Let_def
    by (auto simp: snd_bind_io split: sum.splits option.splits list.splits prod.splits
          dest!: compile_send_confirm_bundle)
  then show ?thesis by (simp add: buy_with_raydium_def)
qed

lemma sell_bundle_seed:
  assumes "instrs \<in> set (assembled_bundles (snd (sell_with_raydium fo c env agent addr percentage slippage)))"
  shows "CallUrandom 24 \<in> set (snd (sell_with_raydium fo c env agent addr percentage slippage))"
proof -
  from assms obtain p h where
    "CallTryCompile p instrs h \<in> set (snd (sell_try_block fo c env agent addr percentage slippage))"
    by (auto simp: assembled_bundles_iff sell_with_raydium_def)
  then have "CallUrandom 24 \<in> set (snd (sell_try_block fo c env agent addr percentage slippage))"
    unfolding sell_try_block_def Let_def
    by (auto simp: snd_bind_io split: sum.splits option.splits list.splits prod.splits if_splits
          dest!: compile_send_confirm_bundle)
  then show ?thesis by (simp add: sell_with_raydium_def)
qed

lemma bundle_created_account:
  assumes "tr = snd (buy_with_raydium fo c env agent addr sol_in slippage)
           \<or> tr = snd (sell_with_raydium fo c env agent addr percentage slippage')"
    and "instrs \<in> set (assembled_bundles tr)"
  shows "\<exists>seed_text account.
           CallUrandom 24 \<in> set tr
           \<and> urandom_seed env = Inr seed_text
           \<and> create_with_seed env (pubkey (wallet agent)) seed_text (TOKEN_PROGRAM_ID c) = Inr account
           \<and> created_accounts instrs = [(seed_text, account)]"
  using assms(1)
proof
  assume tr: "tr = snd (buy_with_raydium fo c env agent addr sol_in slippage)"
  with assms(2) have m: "instrs \<in> set (assembled_bundles (snd (buy_with_raydium fo c env agent addr sol_in slippage)))"
    by simp
  from buy_bundle_shape[OF m] buy_bundle_seed[OF m] show ?thesis
    unfolding tr by (elim exE conjE) (simp split: list.split)
next
  assume tr: "tr = snd (sell_with_raydium fo c env agent addr percentage slippage')"
  with assms(2) have m: "instrs \<in> set (assembled_bundles (snd (sell_with_raydium fo c env agent addr percentage slippage')))"
    by simp
  from sell_bundle_shape[OF m] sell_bundle_seed[OF m] show ?thesis
    unfolding tr by (elim exE conjE) simp
qed

lemma except_return_False_returns: "\<exists>b. fst (except_return_False m) = Inr b"
  by (cases m) (auto simp: except_return_False_def split: sum.split)

lemma except_return_False_True:
  "fst (except_return_False m) = Inr True \<longleftrightarrow> fst m = Inr True"
  by (cases m) (auto simp: except_return_False_def split: sum.split)

lemma except_return_False_raised:
  "fst m = Inl e \<Longrightarrow> fst (except_return_False m) = Inr False"
  by (cases m) (auto simp: except_return_False_def split: sum.split)

lemma compile_send_confirm_rejected:
  "CallSendTransaction txn \<in> set (snd (compile_send_confirm env kp instrs))
     \<Longrightarrow> send_transaction env txn = Inl e
     \<Longrightarrow> fst (compile_send_confirm env kp instrs) = Inl e"
  by (auto simp: compile_send_confirm_def snd_bind_io fst_bind_io split: sum.splits)

lemma compile_send_confirm_answer:
  "CallConfirmTxn sig \<in> set (snd (compile_send_confirm env kp instrs))
     \<Longrightarrow> fst (compile_send_confirm env kp instrs) = confirm_txn env sig"
  by (auto simp: compile_send_confirm_def snd_bind_io fst_bind_io split: sum.splits)

lemma compile_send_confirm_True:
  "fst (compile_send_confirm env kp instrs) = Inr True
     \<Longrightarrow> \<exists>txn sig. CallSendTransaction txn \<in> set (snd (compile_send_confirm env kp instrs))
           \<and> send_transaction env txn = Inr sig
           \<and> CallConfirmTxn sig \<in> set (snd (compile_send_confirm env kp instrs))
           \<and> confirm_txn env sig = Inr True"
  by (auto simp: compile_send_confirm_def snd_bind_io fst_bind_io split: sum.splits)

lemma buy_submission:
  assumes "x \<in> set (snd (buy_try_block fo c env agent addr sol_in slippage))" "is_submission x"
  obtains instrs where
    "x \<in> set (snd (compile_send_confirm env (wallet agent) instrs))"
    "fst (buy_try_block fo c env agent addr sol_in slippage)
       = fst (compile_send_confirm env (wallet agent) instrs)"
  using assms
  unfolding buy_try_block_def Let_def
  by (auto simp: snd_bind_io fst_bind_io split: sum.splits option.splits list.splits prod.splits)

lemma buy_True:
  assumes "fst (buy_try_block fo c env agent addr sol_in slippage) = Inr True"
  obtains instrs where
    "fst (compile_send_confirm env (wallet agent) instrs) = Inr True"
    "set (snd (compile_send_confirm env (wallet agent) instrs))
       \<subseteq> set (snd (buy_try_block fo c env agent addr sol_in slippage))"
  using assms
  unfolding buy_try_block_def Let_def
  by (auto simp: snd_bind_io fst_bind_io split: sum.splits option.splits list.splits prod.splits)

lemma sell_submission:
  assumes "x \<in> set (snd (sell_try_block fo c env agent addr percentage slippage))" "is_submission x"
  obtains instrs where
    "x \<in> set (snd (compile_send_confirm env (wallet agent) instrs))"
    "fst (sell_try_block fo c env agent addr percentage slippage)
       = fst (compile_send_confirm env (wallet agent) instrs)"
  using assms
  unfolding sell_try_block_def Let_def
  by (auto simp: snd_bind_io fst_bind_io
        split: sum.splits option.splits list.splits prod.splits if_splits)

lemma sell_True:
  assumes "fst (sell_try_block fo c env agent addr percentage slippage) = Inr True"
  obtains instrs where
    "fst (compile_send_confirm env (wallet agent) instrs) = Inr True"
    "set (snd (compile_send_confirm env (wallet agent) instrs))
       \<subseteq> set (snd (sell_try_block fo c env agent addr percentage slippage))"
  using assms
  unfolding sell_try_block_def Let_def
  by (auto simp: snd_bind_io fst_bind_io
        split: sum.splits option.splits list.splits prod.splits if_splits)

lemma buy_first_call:
  "take 1 (snd (buy_try_block fo c env agent addr sol_in slippage)) = [CallFetchPoolKeys addr]"
  by (simp add: buy_try_block_def Let_def snd_bind_io split: sum.split)

lemma sell_first_call:
  "1 \<le> percentage \<Longrightarrow> percentage \<le> 100 \<Longrightarrow>
   take 1 (snd (sell_try_block fo c env agent addr percentage slippage)) = [CallFetchPoolKeys addr]"
  by (simp add: sell_try_block_def Let_def snd_bind_io split: sum.split)

section \<open>The runs on the demonstration network\<close>

lemmas run_defs =
  buy_with_raydium_def buy_try_block_def sell_with_raydium_def sell_try_block_def
  compile_send_confirm_def bind_io_def call_io_def pure_io_def return_io_def
  except_return_False_def slippage_adjustment_def buy_minimum_amount_out_def
  sell_minimum_amount_out_def f_mul_int_def bind_exn_def pool_mint_def
  buy_instructions_def sell_instructions_def Let_def

lemmas demo_defs =
  demo_env_def expired_env_def timeout_env_def demo_constants_def demo_agent_def demo_pool_def
  double_ops_def float_of_int_def float_truediv_int_def

lemma demo_buy_bundles:
  "assembled_bundles
     (snd (buy_with_raydium double_ops demo_constants demo_env demo_agent ''Pool'' (Finite 1) 50))
   = [[SetComputeUnitLimit 100000, SetComputeUnitPrice 1000000,
       CreateAccountWithSeed
         \<lparr>from_pubkey = ''Payer'', to_pubkey = ''wsol-c2VlZHNlZWRzZWVkc2VlZHNlZWRzZWVk'',
          base = ''Payer'', seed = ''c2VlZHNlZWRzZWVkc2VlZHNlZWRzZWVk'',
          lamports = 1002039280, space = 165,
          owner = ''TokenkegQfeZyiNwAJbNbGKPFXCWuBvf9Ss623VQ5DA''\<rparr>,
       InitializeAccount ''TokenkegQfeZyiNwAJbNbGKPFXCWuBvf9Ss623VQ5DA''
         ''wsol-c2VlZHNlZWRzZWVkc2VlZHNlZWRzZWVk''
         ''So11111111111111111111111111111111111111112'' ''Payer'',
       CreateAssociatedTokenAccount ''Payer'' ''Payer'' ''Mint'',
       Swap 1000000000 10000000 ''wsol-c2VlZHNlZWRzZWVkc2VlZHNlZWRzZWVk'' ''ata-Payer-Mint''
         demo_pool (Keypair ''Payer''),
       CloseAccount ''TokenkegQfeZyiNwAJbNbGKPFXCWuBvf9Ss623VQ5DA''
         ''wsol-c2VlZHNlZWRzZWVkc2VlZHNlZWRzZWVk'' ''Payer'' ''Payer'']]"
  by (simp add: run_defs demo_defs round_double_exact)

lemma demo_sell_bundles:
  "assembled_bundles
     (snd (sell_with_raydium double_ops demo_constants demo_env demo_agent ''Pool'' 100 50))
   = [[SetComputeUnitLimit 100000, SetComputeUnitPrice 1000000,
       CreateAccountWithSeed
         \<lparr>from_pubkey = ''Payer'', to_pubkey = ''wsol-c2VlZHNlZWRzZWVkc2VlZHNlZWRzZWVk'',
          base = ''Payer'', seed = ''c2VlZHNlZWRzZWVkc2VlZHNlZWRzZWVk'',
          lamports = 2039280, space = 165,
          owner = ''TokenkegQfeZyiNwAJbNbGKPFXCWuBvf9Ss623VQ5DA''\<rparr>,
       InitializeAccount ''TokenkegQfeZyiNwAJbNbGKPFXCWuBvf9Ss623VQ5DA''
         ''wsol-c2VlZHNlZWRzZWVkc2VlZHNlZWRzZWVk''
         ''So11111111111111111111111111111111111111112'' ''Payer'',
       Swap 40000000 1000000000 ''ata-Payer-Mint'' ''wsol-c2VlZHNlZWRzZWVkc2VlZHNlZWRzZWVk''
         demo_pool (Keypair ''Payer''),
       CloseAccount ''TokenkegQfeZyiNwAJbNbGKPFXCWuBvf9Ss623VQ5DA''
         ''wsol-c2VlZHNlZWRzZWVkc2VlZHNlZWRzZWVk'' ''Payer'' ''Payer'',
       CloseAccount ''TokenkegQfeZyiNwAJbNbGKPFXCWuBvf9Ss623VQ5DA''
         ''ata-Payer-Mint'' ''Payer'' ''Payer'']]"
  by (simp add: run_defs demo_defs round_double_exact)

lemma demo_partial_sell_bundles:
  "assembled_bundles
     (snd (sell_with_raydium double_ops demo_constants demo_env demo_agent ''Pool'' 50 50))
   = [[SetComputeUnitLimit 100000, SetComputeUnitPrice 1000000,
       CreateAccountWithSeed
         \<lparr>from_pubkey = ''Payer'', to_pubkey = ''wsol-c2VlZHNlZWRzZWVkc2VlZHNlZWRzZWVk'',
          base = ''Payer'', seed = ''c2VlZHNlZWRzZWVkc2VlZHNlZWRzZWVk'',
          lamports = 2039280, space = 165,
          owner = ''TokenkegQfeZyiNwAJbNbGKPFXCWuBvf9Ss623VQ5DA''\<rparr>,
       InitializeAccount ''TokenkegQfeZyiNwAJbNbGKPFXCWuBvf9Ss623VQ5DA''
         ''wsol-c2VlZHNlZWRzZWVkc2VlZHNlZWRzZWVk''
         ''So11111111111111111111111111111111111111112'' ''Payer'',
       Swap 20000000 1000000000 ''ata-Payer-Mint'' ''wsol-c2VlZHNlZWRzZWVkc2VlZHNlZWRzZWVk''
         demo_pool (Keypair ''Payer''),
       CloseAccount ''TokenkegQfeZyiNwAJbNbGKPFXCWuBvf9Ss623VQ5DA''
         ''wsol-c2VlZHNlZWRzZWVkc2VlZHNlZWRzZWVk'' ''Payer'' ''Payer'']]"
  by (simp add: run_defs demo_defs round_double_exact)

lemma next_sell_bundles:
  "assembled_bundles
     (snd (sell_with_raydium double_ops demo_constants next_env demo_agent ''Pool'' 100 50))
   = [[SetComputeUnitLimit 100000, SetComputeUnitPrice 1000000,
       CreateAccountWithSeed
         \<lparr>from_pubkey = ''Payer'', to_pubkey = ''wsol-bmV4dG5leHRuZXh0bmV4dG5leHRuZXh0'',
          base = ''Payer'', seed = ''bmV4dG5leHRuZXh0bmV4dG5leHRuZXh0'',
          lamports = 2039280, space = 165,
          owner = ''TokenkegQfeZyiNwAJbNbGKPFXCWuBvf9Ss623VQ5DA''\<rparr>,
       InitializeAccount ''TokenkegQfeZyiNwAJbNbGKPFXCWuBvf9Ss623VQ5DA''
         ''wsol-bmV4dG5leHRuZXh0bmV4dG5leHRuZXh0''
         ''So11111111111111111111111111111111111111112'' ''Payer'',
       Swap 40000000 1000000000 ''ata-Payer-Mint'' ''wsol-bmV4dG5leHRuZXh0bmV4dG5leHRuZXh0''
         demo_pool (Keypair ''Payer''),
       CloseAccount ''TokenkegQfeZyiNwAJbNbGKPFXCWuBvf9Ss623VQ5DA''
         ''wsol-bmV4dG5leHRuZXh0bmV4dG5leHRuZXh0'' ''Payer'' ''Payer'',
       CloseAccount ''TokenkegQfeZyiNwAJbNbGKPFXCWuBvf9Ss623VQ5DA''
         ''ata-Payer-Mint'' ''Payer'' ''Payer'']]"
  by (simp add: run_defs demo_defs next_env_def round_double_exact)

lemma demo_results:
  "fst (buy_with_raydium double_ops demo_constants demo_env demo_agent ''Pool'' (Finite 1) 50) = Inr True"
  "fst (sell_with_raydium double_ops demo_constants demo_env demo_agent ''Pool'' 100 50) = Inr True"
  "fst (buy_with_raydium double_ops demo_constants demo_env demo_agent ''Pool'' (Finite 1) (- 100)) = Inr True"
  "fst (sell_with_raydium double_ops demo_constants demo_env demo_agent ''Pool'' 100 (- 100)) = Inr True"
  by (simp_all add: run_defs demo_defs round_double_exact)

lemma expired_results:
  "fst (buy_try_block double_ops demo_constants expired_env demo_agent ''Pool'' (Finite 1) 50)
     = Inl (PyException ''RPCException: Blockhash not found'')"
  "fst (sell_try_block double_ops demo_constants expired_env demo_agent ''Pool'' 100 50)
     = Inl (PyException ''RPCException: Blockhash not found'')"
  "fst (buy_with_raydium double_ops demo_constants expired_env demo_agent ''Pool'' (Finite 1) 50) = Inr False"
  "fst (sell_with_raydium double_ops demo_constants expired_env demo_agent ''Pool'' 100 50) = Inr False"
  by (simp_all add: run_defs demo_defs round_double_exact)

lemma timeout_results:
  "fst (buy_with_raydium double_ops demo_constants timeout_env demo_agent ''Pool'' (Finite 1) 50) = Inr False"
  "fst (sell_with_raydium double_ops demo_constants timeout_env demo_agent ''Pool'' 100 50) = Inr False"
  by (simp_all add: run_defs demo_defs round_double_exact)

lemma out_of_range_runs:
  "filter is_network_call
     (take 3 (snd (buy_with_raydium double_ops demo_constants demo_env demo_agent ''Pool'' (Finite 1) (- 100))))
   = [CallFetchPoolKeys ''Pool'', CallGetTokenReserves demo_pool,
      CallGetTokenAccountsByOwner ''Payer'' ''Mint'']"
  "last (snd (buy_with_raydium double_ops demo_constants demo_env demo_agent ''Pool'' (Finite 1) (- 100)))
   = CallConfirmTxn ''Signature''"
  "swap_instructions_of (concat (assembled_bundles
      (snd (buy_with_raydium double_ops demo_constants demo_env demo_agent ''Pool'' (Finite 1) (- 100)))))
   = [Swap 1000000000 40000000 ''wsol-c2VlZHNlZWRzZWVkc2VlZHNlZWRzZWVk'' ''ata-Payer-Mint''
         demo_pool (Keypair ''Payer'')]"
  by (simp_all add: run_defs demo_defs round_double_exact swap_instructions_of_def)

section \<open>Properties of the event bus\<close>

lemma invocations_append [simp]: "invocations (xs @ ys) = invocations xs @ invocations ys"
  by (induction xs rule: invocations.induct) simp_all

lemma invocations_printed_for [simp]: "invocations (printed_for n r) = []"
  by (simp add: printed_for_def split: option.split)




lemma wf_init_bus: "wf_bus init_bus"
  by (simp add: wf_bus_def init_bus_def)


lemma wf_unsubscribe:
  assumes "wf_bus bus"
  shows "wf_bus (unsubscribe bus n h)"
proof (cases "subscribers bus n")
  case None
  with assms show ?thesis by (simp add: unsubscribe_def)
next
  case (Some a)
  then show ?thesis using assms
    by (fastforce simp: unsubscribe_def wf_bus_def split: if_splits)
qed








lemma publish_loop_numeral:
  "publish_loop (numeral k) run callable event_name a i ev bus w
     = publish_loop (Suc (pred_numeral k)) run callable event_name a i ev bus w"
  "publish_loop 1 run callable event_name a i ev bus w
     = publish_loop (Suc 0) run callable event_name a i ev bus w"
  by (simp_all only: numeral_eq_Suc One_nat_def)

lemmas numeral_fuel = publish_loop_numeral[unfolded publish_loop.simps]


lemma chaining_publish:
  "map_option (\<lambda>(r, effs, left). (r, map fst (invocations effs)))
     (publish 5 chaining_run (\<lambda>h. True) tick_bus 0 7 ''tick'' Map.empty)
   = Some (Inr (), [1, 2, 3, 9])"
  by (simp add: publish_def numeral_fuel chaining_run_def printed_for_def Let_def tick_bus_def
        subscribe_def)


lemma resubscribing_loop_never_returns:
  assumes "subscribers bus ''tick'' = Some a" "i < length (list_objects bus a)"
  shows "publish_loop fuel resubscribing_run (\<lambda>h. True) n a i ev bus w = None"
  using assms
proof (induction fuel arbitrary: i ev bus w)
  case 0
  then show ?case by simp
next
  case (Suc fuel)
  define h where "h = list_objects bus a ! i"
  define b1 where "b1 = bus\<lparr>list_objects := (list_objects bus)(a := list_objects bus a @ [h])\<rparr>"
  have s: "subscribers b1 ''tick'' = Some a" using Suc.prems(1) by (simp add: b1_def)
  have l: "i + 1 < length (list_objects b1 a)" using Suc.prems(2) by (simp add: b1_def)
  have "publish_loop fuel resubscribing_run (\<lambda>h. True) n a (i + 1) ev b1 (w + 1) = None"
    using s l by (rule Suc.IH)
  moreover have "bus_calls (resubscribing_run h ev bus w) = [Subscribe ''tick'' h]"
    "event_after (resubscribing_run h ev bus w) = ev"
    "world_after (resubscribing_run h ev bus w) = w + 1"
    by (simp_all add: resubscribing_run_def)
  ultimately show ?case
    using Suc.prems
    by (simp add: Let_def subscribe_def h_def[symmetric] b1_def[symmetric])
qed

lemma resubscribing_publish_never_returns:
  "publish fuel resubscribing_run (\<lambda>h. True) tick_bus w now ''tick'' kw = None"
proof -
  have "subscribers tick_bus ''tick'' = Some 0" "0 < length (list_objects tick_bus 0)"
    by (simp_all add: tick_bus_def)
  then show ?thesis
    by (simp add: publish_def resubscribing_loop_never_returns)
qed






section \<open>Properties of the raw pool swap path\<close>

text \<open>
  Claim C1, as amended. Neither function checks the slippage: there is no
  \<open>InvalidSlippageError\<close>, and for every slippage, in particular one below 0 or above
  100, the call raises nothing and returns a boolean. The slippage is not looked at
  before the network is used: whatever it is, the first thing \<open>buy_with_raydium\<close> does
  is the call of \<open>fetch_pool_keys\<close>, and so does \<open>sell_with_raydium\<close> once the
  percentage is between 1 and 100.
\<close>

theorem slippage_is_not_validated:
  "(\<exists>b. fst (buy_with_raydium fo c env agent addr sol_in slippage) = Inr b)
   \<and> take 1 (snd (buy_with_raydium fo c env agent addr sol_in slippage)) = [CallFetchPoolKeys addr]
   \<and> (\<exists>b. fst (sell_with_raydium fo c env agent addr percentage slippage) = Inr b)
   \<and> (1 \<le> percentage \<and> percentage \<le> 100 \<longrightarrow>
        take 1 (snd (sell_with_raydium fo c env agent addr percentage slippage))
          = [CallFetchPoolKeys addr])"
  unfolding buy_with_raydium_def sell_with_raydium_def snd_except_return_False
  using buy_first_call sell_first_call
  by (intro conjI impI except_return_False_returns) auto

theorem slippage_is_not_validated_witness:
  "fst (buy_with_raydium double_ops demo_constants demo_env demo_agent ''Pool'' (Finite 1) (- 100))
       = Inr True
   \<and> take 1 (snd (buy_with_raydium double_ops demo_constants demo_env demo_agent ''Pool'' (Finite 1) (- 100)))
       = [CallFetchPoolKeys ''Pool'']
   \<and> fst (sell_with_raydium double_ops demo_constants demo_env demo_agent ''Pool'' 100 (- 100))
       = Inr True
   \<and> (1::int) \<le> 100 \<and> (100::int) \<le> 100
   \<and> take 1 (snd (sell_with_raydium double_ops demo_constants demo_env demo_agent ''Pool'' 100 (- 100)))
       = [CallFetchPoolKeys ''Pool'']"
  using slippage_is_not_validated
          [of double_ops demo_constants demo_env demo_agent "''Pool''" "Finite 1" "- 100" 100]
        demo_results
  by simp

text \<open>
  Claim C1 as stated fails. On the demonstration network a buy and a sell with a
  slippage of \<open>- 100\<close> raise nothing: they return \<open>True\<close>, after the pool keys, the
  reserves and the token accounts have been fetched from the network and the
  transaction has been sent and confirmed.
\<close>

theorem slippage_validation_counterexample:
  "fst (buy_with_raydium double_ops demo_constants demo_env demo_agent ''Pool'' (Finite 1) (- 100))
     = Inr True
   \<and> filter is_network_call
        (take 3 (snd (buy_with_raydium double_ops demo_constants demo_env demo_agent ''Pool''
                        (Finite 1) (- 100))))
     = [CallFetchPoolKeys ''Pool'', CallGetTokenReserves demo_pool,
        CallGetTokenAccountsByOwner ''Payer'' ''Mint'']
   \<and> last (snd (buy_with_raydium double_ops demo_constants demo_env demo_agent ''Pool''
                   (Finite 1) (- 100)))
     = CallConfirmTxn ''Signature''
   \<and> fst (sell_with_raydium double_ops demo_constants demo_env demo_agent ''Pool'' 100 (- 100))
     = Inr True"
  using demo_results out_of_range_runs by simp

lemma expired_calls:
  "\<exists>txn. CallSendTransaction txn
       \<in> set (snd (buy_with_raydium double_ops demo_constants expired_env demo_agent ''Pool'' (Finite 1) 50))
     \<and> send_transaction expired_env txn = Inl (PyException ''RPCException: Blockhash not found'')"
  "\<exists>txn. CallSendTransaction txn
       \<in> set (snd (sell_with_raydium double_ops demo_constants expired_env demo_agent ''Pool'' 100 50))
     \<and> send_transaction expired_env txn = Inl (PyException ''RPCException: Blockhash not found'')"
  by (simp_all add: run_defs demo_defs round_double_exact)

lemma timeout_calls:
  "CallConfirmTxn ''Signature''
     \<in> set (snd (buy_with_raydium double_ops demo_constants timeout_env demo_agent ''Pool'' (Finite 1) 50))"
  "CallConfirmTxn ''Signature''
     \<in> set (snd (sell_with_raydium double_ops demo_constants timeout_env demo_agent ''Pool'' 100 50))"
  "confirm_txn timeout_env ''Signature'' = Inr False"
  by (simp_all add: run_defs demo_defs round_double_exact)

text \<open>
  Claim C2, as amended. The outcome of both functions is a boolean, not one of three
  variants. It is \<open>True\<close> only when a transaction was sent, the node answered with a
  signature and \<open>confirm_txn\<close> answered \<open>True\<close> for that signature. A transaction
  that the node refuses (\<open>send_transaction\<close> raises, as it does for an expired
  blockhash) gives \<open>False\<close>, and so does a transaction for which \<open>confirm_txn\<close>
  answers anything but \<open>True\<close> (no confirmation seen in time): the two are not told
  apart.
\<close>

theorem outcome_is_a_boolean:
  "(\<exists>b. fst (buy_with_raydium fo c env agent addr sol_in slippage) = Inr b)
   \<and> (fst (buy_with_raydium fo c env agent addr sol_in slippage) = Inr True \<longrightarrow>
        (\<exists>txn sig.
           CallSendTransaction txn \<in> set (snd (buy_with_raydium fo c env agent addr sol_in slippage))
           \<and> send_transaction env txn = Inr sig
           \<and> CallConfirmTxn sig \<in> set (snd (buy_with_raydium fo c env agent addr sol_in slippage))
           \<and> confirm_txn env sig = Inr True))
   \<and> (\<forall>txn e.
        CallSendTransaction txn \<in> set (snd (buy_with_raydium fo c env agent addr sol_in slippage))
        \<and> send_transaction env txn = Inl e
        \<longrightarrow> fst (buy_with_raydium fo c env agent addr sol_in slippage) = Inr False)
   \<and> (\<forall>sig.
        CallConfirmTxn sig \<in> set (snd (buy_with_raydium fo c env agent addr sol_in slippage))
        \<and> confirm_txn env sig \<noteq> Inr True
        \<longrightarrow> fst (buy_with_raydium fo c env agent addr sol_in slippage) = Inr False)
   \<and> (\<exists>b. fst (sell_with_raydium fo c env agent addr percentage slippage') = Inr b)
   \<and> (fst (sell_with_raydium fo c env agent addr percentage slippage') = Inr True \<longrightarrow>
        (\<exists>txn sig.
           CallSendTransaction txn \<in> set (snd (sell_with_raydium fo c env agent addr percentage slippage'))
           \<and> send_transaction env txn = Inr sig
           \<and> CallConfirmTxn sig \<in> set (snd (sell_with_raydium fo c env agent addr percentage slippage'))
           \<and> confirm_txn env sig = Inr True))
   \<and> (\<forall>txn e.
        CallSendTransaction txn \<in> set (snd (sell_with_raydium fo c env agent addr percentage slippage'))
        \<and> send_transaction env txn = Inl e
        \<longrightarrow> fst (sell_with_raydium fo c env agent addr percentage slippage') = Inr False)
   \<and> (\<forall>sig.
        CallConfirmTxn sig \<in> set (snd (sell_with_raydium fo c env agent addr percentage slippage'))
        \<and> confirm_txn env sig \<noteq> Inr True
        \<longrightarrow> fst (sell_with_raydium fo c env agent addr percentage slippage') = Inr False)"
proof -
  let ?buy = "buy_try_block fo c env agent addr sol_in slippage"
  let ?sell = "sell_try_block fo c env agent addr percentage slippage'"
  have b1: "\<exists>b. fst (except_return_False ?buy) = Inr b"
    by (rule except_return_False_returns)
  have b2: "\<exists>txn sig. CallSendTransaction txn \<in> set (snd ?buy) \<and> send_transaction env txn = Inr sig
              \<and> CallConfirmTxn sig \<in> set (snd ?buy) \<and> confirm_txn env sig = Inr True"
    if "fst (except_return_False ?buy) = Inr True"
  proof -
    from that have "fst ?buy = Inr True" by (simp only: except_return_False_True)
    then obtain instrs where
      t: "fst (compile_send_confirm env (wallet agent) instrs) = Inr True"
      and s: "set (snd (compile_send_confirm env (wallet agent) instrs)) \<subseteq> set (snd ?buy)"
      by (rule buy_True)
    from compile_send_confirm_True[OF t] s show ?thesis by blast
  qed
  have b3: "fst (except_return_False ?buy) = Inr False"
    if "CallSendTransaction txn \<in> set (snd ?buy) \<and> send_transaction env txn = Inl e" for txn e
  proof -
    from that obtain instrs where
      "CallSendTransaction txn \<in> set (snd (compile_send_confirm env (wallet agent) instrs))"
      "fst ?buy = fst (compile_send_confirm env (wallet agent) instrs)"
      by (elim conjE buy_submission[where x = "CallSendTransaction txn"]) simp_all
    with that have "fst ?buy = Inl e" by (simp add: compile_send_confirm_rejected)
    then show ?thesis by (rule except_return_False_raised)
  qed
  have b4: "fst (except_return_False ?buy) = Inr False"
    if "CallConfirmTxn sig \<in> set (snd ?buy) \<and> confirm_txn env sig \<noteq> Inr True" for sig
  proof -
    from that obtain instrs where
      "CallConfirmTxn sig \<in> set (snd (compile_send_confirm env (wallet agent) instrs))"
      "fst ?buy = fst (compile_send_confirm env (wallet agent) instrs)"
      by (elim conjE buy_submission[where x = "CallConfirmTxn sig"]) simp_all
    then have "fst ?buy = confirm_txn env sig" by (simp add: compile_send_confirm_answer)
    with that show ?thesis
      by (cases "confirm_txn env sig") (auto simp: fst_except_return_False)
  qed
  have s1: "\<exists>b. fst (except_return_False ?sell) = Inr b"
    by (rule except_return_False_returns)
  have s2: "\<exists>txn sig. CallSendTransaction txn \<in> set (snd ?sell) \<and> send_transaction env txn = Inr sig
              \<and> CallConfirmTxn sig \<in> set (snd ?sell) \<and> confirm_txn env sig = Inr True"
    if "fst (except_return_False ?sell) = Inr True"
  proof -
    from that have "fst ?sell = Inr True" by (simp only: except_return_False_True)
    then obtain instrs where
      t: "fst (compile_send_confirm env (wallet agent) instrs) = Inr True"
      and s: "set (snd (compile_send_confirm env (wallet agent) instrs)) \<subseteq> set (snd ?sell)"
      by (rule sell_True)
    from compile_send_confirm_True[OF t] s show ?thesis by blast
  qed
  have s3: "fst (except_return_False ?sell) = Inr False"
    if "CallSendTransaction txn \<in> set (snd ?sell) \<and> send_transaction env txn = Inl e" for txn e
  proof -
    from that obtain instrs where
      "CallSendTransaction txn \<in> set (snd (compile_send_confirm env (wallet agent) instrs))"
      "fst ?sell = fst (compile_send_confirm env (wallet agent) instrs)"
      by (elim conjE sell_submission[where x = "CallSendTransaction txn"]) simp_all
    with that have "fst ?sell = Inl e" by (simp add: compile_send_confirm_rejected)
    then show ?thesis by (rule except_return_False_raised)
  qed
  have s4: "fst (except_return_False ?sell) = Inr False"
    if "CallConfirmTxn sig \<in> set (snd ?sell) \<and> confirm_txn env sig \<noteq> Inr True" for sig
  proof -
    from that obtain instrs where
      "CallConfirmTxn sig \<in> set (snd (compile_send_confirm env (wallet agent) instrs))"
      "fst ?sell = fst (compile_send_confirm env (wallet agent) instrs)"
      by (elim conjE sell_submission[where x = "CallConfirmTxn sig"]) simp_all
    then have "fst ?sell = confirm_txn env sig" by (simp add: compile_send_confirm_answer)
    with that show ?thesis
      by (cases "confirm_txn env sig") (auto simp: fst_except_return_False)
  qed
  show ?thesis
    unfolding buy_with_raydium_def sell_with_raydium_def snd_except_return_False
    using b1 b2 b3 b4 s1 s2 s3 s4 by blast
qed

theorem outcome_is_a_boolean_witness:
  "fst (buy_with_raydium double_ops demo_constants demo_env demo_agent ''Pool'' (Finite 1) 50) = Inr True
   \<and> (\<exists>txn sig.
         CallSendTransaction txn
           \<in> set (snd (buy_with_raydium double_ops demo_constants demo_env demo_agent ''Pool'' (Finite 1) 50))
         \<and> send_transaction demo_env txn = Inr sig
         \<and> CallConfirmTxn sig
           \<in> set (snd (buy_with_raydium double_ops demo_constants demo_env demo_agent ''Pool'' (Finite 1) 50))
         \<and> confirm_txn demo_env sig = Inr True)
   \<and> (\<exists>txn. CallSendTransaction txn
         \<in> set (snd (buy_with_raydium double_ops demo_constants expired_env demo_agent ''Pool'' (Finite 1) 50))
       \<and> send_transaction expired_env txn = Inl (PyException ''RPCException: Blockhash not found''))
   \<and> fst (buy_with_raydium double_ops demo_constants expired_env demo_agent ''Pool'' (Finite 1) 50)
       = Inr False
   \<and> CallConfirmTxn ''Signature''
       \<in> set (snd (buy_with_raydium double_ops demo_constants timeout_env demo_agent ''Pool'' (Finite 1) 50))
   \<and> confirm_txn timeout_env ''Signature'' = Inr False
   \<and> fst (buy_with_raydium double_ops demo_constants timeout_env demo_agent ''Pool'' (Finite 1) 50)
       = Inr False
   \<and> fst (sell_with_raydium double_ops demo_constants demo_env demo_agent ''Pool'' 100 50) = Inr True
   \<and> (\<exists>txn. CallSendTransaction txn
         \<in> set (snd (sell_with_raydium double_ops demo_constants expired_env demo_agent ''Pool'' 100 50))
       \<and> send_transaction expired_env txn = Inl (PyException ''RPCException: Blockhash not found''))
   \<and> fst (sell_with_raydium double_ops demo_constants expired_env demo_agent ''Pool'' 100 50)
       = Inr False
   \<and> CallConfirmTxn ''Signature''
       \<in> set (snd (sell_with_raydium double_ops demo_constants timeout_env demo_agent ''Pool'' 100 50))
   \<and> fst (sell_with_raydium double_ops demo_constants timeout_env demo_agent ''Pool'' 100 50)
       = Inr False"
proof -
  note ok = outcome_is_a_boolean
      [of double_ops demo_constants demo_env demo_agent "''Pool''" "Finite 1" 50 100 50]
  note rejected = outcome_is_a_boolean
      [of double_ops demo_constants expired_env demo_agent "''Pool''" "Finite 1" 50 100 50]
  note timed_out = outcome_is_a_boolean
      [of double_ops demo_constants timeout_env demo_agent "''Pool''" "Finite 1" 50 100 50]
  from ok demo_results(1) have
    "\<exists>txn sig.
         CallSendTransaction txn
           \<in> set (snd (buy_with_raydium double_ops demo_constants demo_env demo_agent ''Pool'' (Finite 1) 50))
         \<and> send_transaction demo_env txn = Inr sig
         \<and> CallConfirmTxn sig
           \<in> set (snd (buy_with_raydium double_ops demo_constants demo_env demo_agent ''Pool'' (Finite 1) 50))
         \<and> confirm_txn demo_env sig = Inr True"
    by blast
  moreover from rejected expired_calls have
    "fst (buy_with_raydium double_ops demo_constants expired_env demo_agent ''Pool'' (Finite 1) 50)
       = Inr False"
    "fst (sell_with_raydium double_ops demo_constants expired_env demo_agent ''Pool'' 100 50)
       = Inr False"
    by blast+
  moreover from timed_out timeout_calls have
    "fst (buy_with_raydium double_ops demo_constants timeout_env demo_agent ''Pool'' (Finite 1) 50)
       = Inr False"
    "fst (sell_with_raydium double_ops demo_constants timeout_env demo_agent ''Pool'' 100 50)
       = Inr False"
    by (metis sum.inject(2))+
  ultimately show ?thesis
    using demo_results expired_calls timeout_calls by blast
qed

text \<open>
  Claim C2 as stated fails. A bundle refused because its blockhash has expired and a
  bundle whose confirmation timed out give the same outcome, \<open>False\<close>, on the buy
  path and on the sell path.
\<close>

theorem outcome_variants_counterexample:
  "fst (buy_with_raydium double_ops demo_constants expired_env demo_agent ''Pool'' (Finite 1) 50)
     = fst (buy_with_raydium double_ops demo_constants timeout_env demo_agent ''Pool'' (Finite 1) 50)
   \<and> fst (buy_with_raydium double_ops demo_constants expired_env demo_agent ''Pool'' (Finite 1) 50)
     = Inr False
   \<and> fst (sell_with_raydium double_ops demo_constants expired_env demo_agent ''Pool'' 100 50)
     = fst (sell_with_raydium double_ops demo_constants timeout_env demo_agent ''Pool'' 100 50)
   \<and> fst (sell_with_raydium double_ops demo_constants expired_env demo_agent ''Pool'' 100 50)
     = Inr False"
  using expired_results timeout_results by simp

text \<open>
  Claim C4. Every bundle that \<open>buy_with_raydium\<close> or \<open>sell_with_raydium\<close> hands
  to \<open>try_compile\<close> starts with the unit limit \<open>UNIT_BUDGET\<close> and the unit price
  \<open>UNIT_PRICE\<close>, in that order, and its kinds of instruction are in the order the
  specification states. The bundle is this list and no other. The ephemeral account is
  the address \<open>wsol_token_account\<close> that \<open>create_with_seed\<close> derived from the payer,
  the seed drawn in this run and the token program. On the buy path the instructions
  after the two compute-budget ones are: the creation of that account with that seed, its
  initialization for the wrapped-native mint, the creation of the payer's associated
  account for the pool's mint when the lookup found no token account, the swap built from
  \<open>amount_in\<close> and \<open>minimum_amount_out\<close> out of that account into the token account,
  and the close of that account. On the sell path they are: the creation of that account,
  its initialization, the swap from the payer's associated account into that account, the
  close of that account and, when the percentage is 100, the close of the associated
  account.
\<close>

theorem bundle_in_stated_order:
  "(\<forall>instrs \<in> set (assembled_bundles (snd (buy_with_raydium fo c env agent addr sol_in slippage))).
      take 2 instrs = [SetComputeUnitLimit (UNIT_BUDGET c), SetComputeUnitPrice (UNIT_PRICE c)]
      \<and> (map kind_of instrs
            = [UnitLimit, UnitPrice, CreateEphemeral, InitializeEphemeral, SwapKind, CloseKind]
          \<or> map kind_of instrs
            = [UnitLimit, UnitPrice, CreateEphemeral, InitializeEphemeral, CreateAssociated,
               SwapKind, CloseKind])
      \<and> stated_order (map kind_of instrs)
      \<and> (\<exists>pool_keys amount_in base_reserve quote_reserve token_decimal amount_out adj
            minimum_amount_out token_account_check seed_text wsol_token_account balance_needed.
          fetch_pool_keys env addr = Inr (Some pool_keys)
          \<and> f_int fo (f_mul fo sol_in (SOL_DECIMAL c)) = Inr amount_in
          \<and> get_token_reserves env pool_keys = Inr (base_reserve, quote_reserve, token_decimal)
          \<and> sol_for_tokens env sol_in base_reserve quote_reserve = Inr amount_out
          \<and> slippage_adjustment fo slippage = Inr adj
          \<and> buy_minimum_amount_out fo amount_out adj token_decimal = Inr minimum_amount_out
          \<and> get_token_accounts_by_owner env (pubkey (wallet agent)) (pool_mint c pool_keys)
              = Inr token_account_check
          \<and> urandom_seed env = Inr seed_text
          \<and> create_with_seed env (pubkey (wallet agent)) seed_text (TOKEN_PROGRAM_ID c)
              = Inr wsol_token_account
          \<and> get_min_balance_rent_for_exempt_for_account env = Inr balance_needed
          \<and> instrs =
              [SetComputeUnitLimit (UNIT_BUDGET c),
               SetComputeUnitPrice (UNIT_PRICE c),
               CreateAccountWithSeed
                 \<lparr>from_pubkey = pubkey (wallet agent), to_pubkey = wsol_token_account,
                  base = pubkey (wallet agent), seed = seed_text,
                  lamports = balance_needed + amount_in, space = ACCOUNT_LAYOUT_sizeof c,
                  owner = TOKEN_PROGRAM_ID c\<rparr>,
               InitializeAccount (TOKEN_PROGRAM_ID c) wsol_token_account (WSOL c) (pubkey (wallet agent))]
              @ (case token_account_check of
                   first # others \<Rightarrow> []
                 | [] \<Rightarrow> [CreateAssociatedTokenAccount (pubkey (wallet agent)) (pubkey (wallet agent))
                           (pool_mint c pool_keys)])
              @ [Swap amount_in minimum_amount_out wsol_token_account
                   (case token_account_check of
                      first # others \<Rightarrow> first
                    | [] \<Rightarrow> get_associated_token_address env (pubkey (wallet agent))
                             (pool_mint c pool_keys))
                   pool_keys (wallet agent),
                 CloseAccount (TOKEN_PROGRAM_ID c) wsol_token_account (pubkey (wallet agent))
                   (pubkey (wallet agent))]))
   \<and> (\<forall>instrs \<in> set (assembled_bundles (snd (sell_with_raydium fo c env agent addr percentage slippage'))).
      take 2 instrs = [SetComputeUnitLimit (UNIT_BUDGET c), SetComputeUnitPrice (UNIT_PRICE c)]
      \<and> (map kind_of instrs
            = [UnitLimit, UnitPrice, CreateEphemeral, InitializeEphemeral, SwapKind, CloseKind]
          \<or> map kind_of instrs
            = [UnitLimit, UnitPrice, CreateEphemeral, InitializeEphemeral, SwapKind, CloseKind,
               CloseKind])
      \<and> stated_order (map kind_of instrs)
      \<and> (\<exists>pool_keys whole_balance fraction base_reserve quote_reserve token_decimal amount_out adj
            minimum_amount_out amount_in seed_text wsol_token_account balance_needed.
          1 \<le> percentage \<and> percentage \<le> 100
          \<and> fetch_pool_keys env addr = Inr (Some pool_keys)
          \<and> get_token_balance env (pool_mint c pool_keys) = Inr (Some whole_balance)
          \<and> \<not> f_eq_int fo whole_balance 0
          \<and> f_truediv_int fo percentage 100 = Inr fraction
          \<and> get_token_reserves env pool_keys = Inr (base_reserve, quote_reserve, token_decimal)
          \<and> tokens_for_sol env (f_mul fo whole_balance fraction) base_reserve quote_reserve
              = Inr amount_out
          \<and> slippage_adjustment fo slippage' = Inr adj
          \<and> sell_minimum_amount_out fo c amount_out adj = Inr minimum_amount_out
          \<and> bind_exn (f_mul_int fo (f_mul fo whole_balance fraction) (10 ^ token_decimal)) (f_int fo)
              = Inr amount_in
          \<and> urandom_seed env = Inr seed_text
          \<and> create_with_seed env (pubkey (wallet agent)) seed_text (TOKEN_PROGRAM_ID c)
              = Inr wsol_token_account
          \<and> get_min_balance_rent_for_exempt_for_account env = Inr balance_needed
          \<and> instrs =
              [SetComputeUnitLimit (UNIT_BUDGET c),
               SetComputeUnitPrice (UNIT_PRICE c),
               CreateAccountWithSeed
                 \<lparr>from_pubkey = pubkey (wallet agent), to_pubkey = wsol_token_account,
                  base = pubkey (wallet agent), seed = seed_text,
                  lamports = balance_needed, space = ACCOUNT_LAYOUT_sizeof c,
                  owner = TOKEN_PROGRAM_ID c\<rparr>,
               InitializeAccount (TOKEN_PROGRAM_ID c) wsol_token_account (WSOL c) (pubkey (wallet agent)),
               Swap amount_in minimum_amount_out
                 (get_associated_token_address env (pubkey (wallet agent)) (pool_mint c pool_keys))
                 wsol_token_account pool_keys (wallet agent),
               CloseAccount (TOKEN_PROGRAM_ID c) wsol_token_account (pubkey (wallet agent))
                 (pubkey (wallet agent))]
              @ (if percentage = 100
                 then [CloseAccount (TOKEN_PROGRAM_ID c)
                         (get_associated_token_address env (pubkey (wallet agent)) (pool_mint c pool_keys))
                         (pubkey (wallet agent)) (pubkey (wallet agent))]
                 else [])))"
proof (rule conjI; rule ballI)
  fix instrs
  assume m: "instrs \<in> set (assembled_bundles (snd (buy_with_raydium fo c env agent addr sol_in slippage)))"
  then obtain p h where
    "CallTryCompile p instrs h \<in> set (snd (buy_try_block fo c env agent addr sol_in slippage))"
    by (auto simp: assembled_bundles_iff buy_with_raydium_def)
  then have "take 2 instrs = [SetComputeUnitLimit (UNIT_BUDGET c), SetComputeUnitPrice (UNIT_PRICE c)]
      \<and> (map kind_of instrs
            = [UnitLimit, UnitPrice, CreateEphemeral, InitializeEphemeral, SwapKind, CloseKind]
          \<or> map kind_of instrs
            = [UnitLimit, UnitPrice, CreateEphemeral, InitializeEphemeral, CreateAssociated,
               SwapKind, CloseKind])
      \<and> stated_order (map kind_of instrs)"
    by (elim buy_compiled_bundle) (simp add: buy_instructions_def stated_order_def split: list.split)
  with buy_bundle_shape[OF m] show "take 2 instrs = [SetComputeUnitLimit (UNIT_BUDGET c), SetComputeUnitPrice (UNIT_PRICE c)]
      \<and> (map kind_of instrs
            = [UnitLimit, UnitPrice, CreateEphemeral, InitializeEphemeral, SwapKind, CloseKind]
          \<or> map kind_of instrs
            = [UnitLimit, UnitPrice, CreateEphemeral, InitializeEphemeral, CreateAssociated,
               SwapKind, CloseKind])
      \<and> stated_order (map kind_of instrs)
      \<and> (\<exists>pool_keys amount_in base_reserve quote_reserve token_decimal amount_out adj
            minimum_amount_out token_account_check seed_text wsol_token_account balance_needed.
          fetch_pool_keys env addr = Inr (Some pool_keys)
          \<and> f_int fo (f_mul fo sol_in (SOL_DECIMAL c)) = Inr amount_in
          \<and> get_token_reserves env pool_keys = Inr (base_reserve, quote_reserve, token_decimal)
          \<and> sol_for_tokens env sol_in base_reserve quote_reserve = Inr amount_out
          \<and> slippage_adjustment fo slippage = Inr adj
          \<and> buy_minimum_amount_out fo amount_out adj token_decimal = Inr minimum_amount_out
          \<and> get_token_accounts_by_owner env (pubkey (wallet agent)) (pool_mint c pool_keys)
              = Inr token_account_check
          \<and> urandom_seed env = Inr seed_text
          \<and> create_with_seed env (pubkey (wallet agent)) seed_text (TOKEN_PROGRAM_ID c)
              = Inr wsol_token_account
          \<and> get_min_balance_rent_for_exempt_for_account env = Inr balance_needed
          \<and> instrs =
              [SetComputeUnitLimit (UNIT_BUDGET c),
               SetComputeUnitPrice (UNIT_PRICE c),
               CreateAccountWithSeed
                 \<lparr>from_pubkey = pubkey (wallet agent), to_pubkey = wsol_token_account,
                  base = pubkey (wallet agent), seed = seed_text,
                  lamports = balance_needed + amount_in, space = ACCOUNT_LAYOUT_sizeof c,
                  owner = TOKEN_PROGRAM_ID c\<rparr>,
               InitializeAccount (TOKEN_PROGRAM_ID c) wsol_token_account (WSOL c) (pubkey (wallet agent))]
              @ (case token_account_check of
                   first # others \<Rightarrow> []
                 | [] \<Rightarrow> [CreateAssociatedTokenAccount (pubkey (wallet agent)) (pubkey (wallet agent))
                           (pool_mint c pool_keys)])
              @ [Swap amount_in minimum_amount_out wsol_token_account
                   (case token_account_check of
                      first # others \<Rightarrow> first
                    | [] \<Rightarrow> get_associated_token_address env (pubkey (wallet agent))
                             (pool_mint c pool_keys))
                   pool_keys (wallet agent),
                 CloseAccount (TOKEN_PROGRAM_ID c) wsol_token_account (pubkey (wallet agent))
                   (pubkey (wallet agent))])"
    by (intro conjI) (elim conjE, assumption)+
next
  fix instrs
  assume m: "instrs \<in> set (assembled_bundles (snd (sell_with_raydium fo c env agent addr percentage slippage')))"
  then obtain p h where
    "CallTryCompile p instrs h \<in> set (snd (sell_try_block fo c env agent addr percentage slippage'))"
    by (auto simp: assembled_bundles_iff sell_with_raydium_def)
  then have "take 2 instrs = [SetComputeUnitLimit (UNIT_BUDGET c), SetComputeUnitPrice (UNIT_PRICE c)]
      \<and> (map kind_of instrs
            = [UnitLimit, UnitPrice, CreateEphemeral, InitializeEphemeral, SwapKind, CloseKind]
          \<or> map kind_of instrs
            = [UnitLimit, UnitPrice, CreateEphemeral, InitializeEphemeral, SwapKind, CloseKind,
               CloseKind])
      \<and> stated_order (map kind_of instrs)"
    by (elim sell_compiled_bundle) (simp add: sell_instructions_def stated_order_def)
  with sell_bundle_shape[OF m] show "take 2 instrs = [SetComputeUnitLimit (UNIT_BUDGET c), SetComputeUnitPrice (UNIT_PRICE c)]
      \<and> (map kind_of instrs
            = [UnitLimit, UnitPrice, CreateEphemeral, InitializeEphemeral, SwapKind, CloseKind]
          \<or> map kind_of instrs
            = [UnitLimit, UnitPrice, CreateEphemeral, InitializeEphemeral, SwapKind, CloseKind,
               CloseKind])
      \<and> stated_order (map kind_of instrs)
      \<and> (\<exists>pool_keys whole_balance fraction base_reserve quote_reserve token_decimal amount_out adj
            minimum_amount_out amount_in seed_text wsol_token_account balance_needed.
          1 \<le> percentage \<and> percentage \<le> 100
          \<and> fetch_pool_keys env addr = Inr (Some pool_keys)
          \<and> get_token_balance env (pool_mint c pool_keys) = Inr (Some whole_balance)
          \<and> \<not> f_eq_int fo whole_balance 0
          \<and> f_truediv_int fo percentage 100 = Inr fraction
          \<and> get_token_reserves env pool_keys = Inr (base_reserve, quote_reserve, token_decimal)
          \<and> tokens_for_sol env (f_mul fo whole_balance fraction) base_reserve quote_reserve
              = Inr amount_out
          \<and> slippage_adjustment fo slippage' = Inr adj
          \<and> sell_minimum_amount_out fo c amount_out adj = Inr minimum_amount_out
          \<and> bind_exn (f_mul_int fo (f_mul fo whole_balance fraction) (10 ^ token_decimal)) (f_int fo)
              = Inr amount_in
          \<and> urandom_seed env = Inr seed_text
          \<and> create_with_seed env (pubkey (wallet agent)) seed_text (TOKEN_PROGRAM_ID c)
              = Inr wsol_token_account
          \<and> get_min_balance_rent_for_exempt_for_account env = Inr balance_needed
          \<and> instrs =
              [SetComputeUnitLimit (UNIT_BUDGET c),
               SetComputeUnitPrice (UNIT_PRICE c),
               CreateAccountWithSeed
                 \<lparr>from_pubkey = pubkey (wallet agent), to_pubkey = wsol_token_account,
                  base = pubkey (wallet agent), seed = seed_text,
                  lamports = balance_needed, space = ACCOUNT_LAYOUT_sizeof c,
                  owner = TOKEN_PROGRAM_ID c\<rparr>,
               InitializeAccount (TOKEN_PROGRAM_ID c) wsol_token_account (WSOL c) (pubkey (wallet agent)),
               Swap amount_in minimum_amount_out
                 (get_associated_token_address env (pubkey (wallet agent)) (pool_mint c pool_keys))
                 wsol_token_account pool_keys (wallet agent),
               CloseAccount (TOKEN_PROGRAM_ID c) wsol_token_account (pubkey (wallet agent))
                 (pubkey (wallet agent))]
              @ (if percentage = 100
                 then [CloseAccount (TOKEN_PROGRAM_ID c)
                         (get_associated_token_address env (pubkey (wallet agent)) (pool_mint c pool_keys))
                         (pubkey (wallet agent)) (pubkey (wallet agent))]
                 else []))"
    by (intro conjI) (elim conjE, assumption)+
qed

theorem bundle_in_stated_order_witness:
  "assembled_bundles
     (snd (buy_with_raydium double_ops demo_constants demo_env demo_agent ''Pool'' (Finite 1) 50))
   = [[SetComputeUnitLimit 100000, SetComputeUnitPrice 1000000,
       CreateAccountWithSeed
         \<lparr>from_pubkey = ''Payer'', to_pubkey = ''wsol-c2VlZHNlZWRzZWVkc2VlZHNlZWRzZWVk'',
          base = ''Payer'', seed = ''c2VlZHNlZWRzZWVkc2VlZHNlZWRzZWVk'',
          lamports = 1002039280, space = 165,
          owner = ''TokenkegQfeZyiNwAJbNbGKPFXCWuBvf9Ss623VQ5DA''\<rparr>,
       InitializeAccount ''TokenkegQfeZyiNwAJbNbGKPFXCWuBvf9Ss623VQ5DA''
         ''wsol-c2VlZHNlZWRzZWVkc2VlZHNlZWRzZWVk''
         ''So11111111111111111111111111111111111111112'' ''Payer'',
       CreateAssociatedTokenAccount ''Payer'' ''Payer'' ''Mint'',
       Swap 1000000000 10000000 ''wsol-c2VlZHNlZWRzZWVkc2VlZHNlZWRzZWVk'' ''ata-Payer-Mint''
         demo_pool (Keypair ''Payer''),
       CloseAccount ''TokenkegQfeZyiNwAJbNbGKPFXCWuBvf9Ss623VQ5DA''
         ''wsol-c2VlZHNlZWRzZWVkc2VlZHNlZWRzZWVk'' ''Payer'' ''Payer'']]
   \<and> map (map kind_of) (assembled_bundles
       (snd (buy_with_raydium double_ops demo_constants demo_env demo_agent ''Pool'' (Finite 1) 50)))
     = [[UnitLimit, UnitPrice, CreateEphemeral, InitializeEphemeral, CreateAssociated, SwapKind,
         CloseKind]]
   \<and> stated_order [UnitLimit, UnitPrice, CreateEphemeral, InitializeEphemeral, CreateAssociated,
         SwapKind, CloseKind]
   \<and> assembled_bundles
       (snd (sell_with_raydium double_ops demo_constants demo_env demo_agent ''Pool'' 100 50))
     = [[SetComputeUnitLimit 100000, SetComputeUnitPrice 1000000,
         CreateAccountWithSeed
           \<lparr>from_pubkey = ''Payer'', to_pubkey = ''wsol-c2VlZHNlZWRzZWVkc2VlZHNlZWRzZWVk'',
            base = ''Payer'', seed = ''c2VlZHNlZWRzZWVkc2VlZHNlZWRzZWVk'',
            lamports = 2039280, space = 165,
            owner = ''TokenkegQfeZyiNwAJbNbGKPFXCWuBvf9Ss623VQ5DA''\<rparr>,
         InitializeAccount ''TokenkegQfeZyiNwAJbNbGKPFXCWuBvf9Ss623VQ5DA''
           ''wsol-c2VlZHNlZWRzZWVkc2VlZHNlZWRzZWVk''
           ''So11111111111111111111111111111111111111112'' ''Payer'',
         Swap 40000000 1000000000 ''ata-Payer-Mint'' ''wsol-c2VlZHNlZWRzZWVkc2VlZHNlZWRzZWVk''
           demo_pool (Keypair ''Payer''),
         CloseAccount ''TokenkegQfeZyiNwAJbNbGKPFXCWuBvf9Ss623VQ5DA''
           ''wsol-c2VlZHNlZWRzZWVkc2VlZHNlZWRzZWVk'' ''Payer'' ''Payer'',
         CloseAccount ''TokenkegQfeZyiNwAJbNbGKPFXCWuBvf9Ss623VQ5DA''
           ''ata-Payer-Mint'' ''Payer'' ''Payer'']]
   \<and> map (map kind_of) (assembled_bundles
       (snd (sell_with_raydium double_ops demo_constants demo_env demo_agent ''Pool'' 100 50)))
     = [[UnitLimit, UnitPrice, CreateEphemeral, InitializeEphemeral, SwapKind, CloseKind, CloseKind]]
   \<and> stated_order [UnitLimit, UnitPrice, CreateEphemeral, InitializeEphemeral, SwapKind, CloseKind,
         CloseKind]
   \<and> urandom_seed demo_env = Inr ''c2VlZHNlZWRzZWVkc2VlZHNlZWRzZWVk''
   \<and> create_with_seed demo_env (pubkey (wallet demo_agent)) ''c2VlZHNlZWRzZWVkc2VlZHNlZWRzZWVk''
        (TOKEN_PROGRAM_ID demo_constants) = Inr ''wsol-c2VlZHNlZWRzZWVkc2VlZHNlZWRzZWVk''
   \<and> get_associated_token_address demo_env (pubkey (wallet demo_agent))
        (pool_mint demo_constants demo_pool) = ''ata-Payer-Mint''"
proof -
  note t = bundle_in_stated_order
          [of double_ops demo_constants demo_env demo_agent "''Pool''" "Finite 1" 50 100 50]
  from t demo_buy_bundles have
    "stated_order [UnitLimit, UnitPrice, CreateEphemeral, InitializeEphemeral, CreateAssociated,
         SwapKind, CloseKind]"
    by simp
  moreover from t demo_sell_bundles have
    "stated_order [UnitLimit, UnitPrice, CreateEphemeral, InitializeEphemeral, SwapKind, CloseKind,
         CloseKind]"
    by simp
  moreover have "urandom_seed demo_env = Inr ''c2VlZHNlZWRzZWVkc2VlZHNlZWRzZWVk''"
    "create_with_seed demo_env (pubkey (wallet demo_agent)) ''c2VlZHNlZWRzZWVkc2VlZHNlZWRzZWVk''
        (TOKEN_PROGRAM_ID demo_constants) = Inr ''wsol-c2VlZHNlZWRzZWVkc2VlZHNlZWRzZWVk''"
    "get_associated_token_address demo_env (pubkey (wallet demo_agent))
        (pool_mint demo_constants demo_pool) = ''ata-Payer-Mint''"
    by (simp_all add: demo_defs pool_mint_def)
  ultimately show ?thesis
    by (simp add: demo_buy_bundles demo_sell_bundles)
qed

text \<open>
  Claim C5. In every bundle assembled by \<open>sell_with_raydium\<close> the swap takes the
  tokens from the wallet's associated account for the pool's mint, the source account.
  When the percentage is 100 the bundle has two close instructions, that of the ephemeral
  wrapped account and then, as its last instruction, that of the source account. When it
  is not 100 it is below 100 and the only close instruction of the bundle is that of the
  ephemeral account.
\<close>

theorem full_sell_closes_source_account:
  "\<forall>instrs \<in> set (assembled_bundles (snd (sell_with_raydium fo c env agent addr percentage slippage))).
     \<exists>pool_keys amount_in minimum_amount_out source_account wsol_token_account.
       fetch_pool_keys env addr = Inr (Some pool_keys)
       \<and> source_account = get_associated_token_address env (pubkey (wallet agent)) (pool_mint c pool_keys)
       \<and> swap_instructions_of instrs
           = [Swap amount_in minimum_amount_out source_account wsol_token_account pool_keys (wallet agent)]
       \<and> (if percentage = 100
           then close_instructions instrs
                  = [CloseAccount (TOKEN_PROGRAM_ID c) wsol_token_account
                       (pubkey (wallet agent)) (pubkey (wallet agent)),
                     CloseAccount (TOKEN_PROGRAM_ID c) source_account
                       (pubkey (wallet agent)) (pubkey (wallet agent))]
                \<and> last instrs = CloseAccount (TOKEN_PROGRAM_ID c) source_account
                       (pubkey (wallet agent)) (pubkey (wallet agent))
           else percentage < 100
                \<and> close_instructions instrs
                  = [CloseAccount (TOKEN_PROGRAM_ID c) wsol_token_account
                       (pubkey (wallet agent)) (pubkey (wallet agent))])"
proof
  fix instrs
  assume "instrs \<in> set (assembled_bundles (snd (sell_with_raydium fo c env agent addr percentage slippage)))"
  then obtain p h where
    "CallTryCompile p instrs h \<in> set (snd (sell_try_block fo c env agent addr percentage slippage))"
    by (auto simp: assembled_bundles_iff sell_with_raydium_def)
  then show "\<exists>pool_keys amount_in minimum_amount_out source_account wsol_token_account.
       fetch_pool_keys env addr = Inr (Some pool_keys)
       \<and> source_account = get_associated_token_address env (pubkey (wallet agent)) (pool_mint c pool_keys)
       \<and> swap_instructions_of instrs
           = [Swap amount_in minimum_amount_out source_account wsol_token_account pool_keys (wallet agent)]
       \<and> (if percentage = 100
           then close_instructions instrs
                  = [CloseAccount (TOKEN_PROGRAM_ID c) wsol_token_account
                       (pubkey (wallet agent)) (pubkey (wallet agent)),
                     CloseAccount (TOKEN_PROGRAM_ID c) source_account
                       (pubkey (wallet agent)) (pubkey (wallet agent))]
                \<and> last instrs = CloseAccount (TOKEN_PROGRAM_ID c) source_account
                       (pubkey (wallet agent)) (pubkey (wallet agent))
           else percentage < 100
                \<and> close_instructions instrs
                  = [CloseAccount (TOKEN_PROGRAM_ID c) wsol_token_account
                       (pubkey (wallet agent)) (pubkey (wallet agent))])"
    by (elim sell_compiled_bundle)
       (simp add: sell_instructions_def close_instructions_def swap_instructions_of_def)
qed

theorem full_sell_closes_source_account_witness:
  "map close_instructions (assembled_bundles
     (snd (sell_with_raydium double_ops demo_constants demo_env demo_agent ''Pool'' 100 50)))
   = [[CloseAccount ''TokenkegQfeZyiNwAJbNbGKPFXCWuBvf9Ss623VQ5DA''
         ''wsol-c2VlZHNlZWRzZWVkc2VlZHNlZWRzZWVk'' ''Payer'' ''Payer'',
       CloseAccount ''TokenkegQfeZyiNwAJbNbGKPFXCWuBvf9Ss623VQ5DA''
         ''ata-Payer-Mint'' ''Payer'' ''Payer'']]
   \<and> map close_instructions (assembled_bundles
     (snd (sell_with_raydium double_ops demo_constants demo_env demo_agent ''Pool'' 50 50)))
   = [[CloseAccount ''TokenkegQfeZyiNwAJbNbGKPFXCWuBvf9Ss623VQ5DA''
         ''wsol-c2VlZHNlZWRzZWVkc2VlZHNlZWRzZWVk'' ''Payer'' ''Payer'']]
   \<and> get_associated_token_address demo_env (pubkey (wallet demo_agent))
        (pool_mint demo_constants demo_pool) = ''ata-Payer-Mint''"
  using full_sell_closes_source_account
          [of double_ops demo_constants demo_env demo_agent "''Pool''" 100 50]
        full_sell_closes_source_account
          [of double_ops demo_constants demo_env demo_agent "''Pool''" 50 50]
        demo_sell_bundles demo_partial_sell_bundles
  by (simp add: close_instructions_def demo_defs pool_mint_def)

text \<open>
  Claim C6. In every bundle assembled by \<open>buy_with_raydium\<close> one account is created,
  funded with \<open>balance_needed + amount_in\<close> lamports, where \<open>balance_needed\<close> is the
  rent-exempt minimum the network answered and \<open>amount_in = int(sol_in * SOL_DECIMAL)\<close>
  is the amount the swap instruction spends. In every bundle assembled by
  \<open>sell_with_raydium\<close> one account is created, funded with \<open>balance_needed\<close>
  lamports.
\<close>

theorem ephemeral_account_funding:
  "(\<forall>instrs \<in> set (assembled_bundles (snd (buy_with_raydium fo c env agent addr sol_in slippage))).
      \<exists>balance_needed amount_in minimum_amount_out src dst pool_keys.
        get_min_balance_rent_for_exempt_for_account env = Inr balance_needed
        \<and> f_int fo (f_mul fo sol_in (SOL_DECIMAL c)) = Inr amount_in
        \<and> swap_instructions_of instrs
            = [Swap amount_in minimum_amount_out src dst pool_keys (wallet agent)]
        \<and> created_lamports instrs = [balance_needed + amount_in])
   \<and> (\<forall>instrs \<in> set (assembled_bundles (snd (sell_with_raydium fo c env agent addr percentage slippage'))).
      \<exists>balance_needed.
        get_min_balance_rent_for_exempt_for_account env = Inr balance_needed
        \<and> created_lamports instrs = [balance_needed])"
proof (rule conjI; rule ballI)
  fix instrs
  assume "instrs \<in> set (assembled_bundles (snd (buy_with_raydium fo c env agent addr sol_in slippage)))"
  then obtain p h where
    "CallTryCompile p instrs h \<in> set (snd (buy_try_block fo c env agent addr sol_in slippage))"
    by (auto simp: assembled_bundles_iff buy_with_raydium_def)
  then show "\<exists>balance_needed amount_in minimum_amount_out src dst pool_keys.
        get_min_balance_rent_for_exempt_for_account env = Inr balance_needed
        \<and> f_int fo (f_mul fo sol_in (SOL_DECIMAL c)) = Inr amount_in
        \<and> swap_instructions_of instrs
            = [Swap amount_in minimum_amount_out src dst pool_keys (wallet agent)]
        \<and> created_lamports instrs = [balance_needed + amount_in]"
    by (elim buy_compiled_bundle)
       (simp add: buy_instructions_def swap_instructions_of_def split: list.split)
next
  fix instrs
  assume "instrs \<in> set (assembled_bundles (snd (sell_with_raydium fo c env agent addr percentage slippage')))"
  then obtain p h where
    "CallTryCompile p instrs h \<in> set (snd (sell_try_block fo c env agent addr percentage slippage'))"
    by (auto simp: assembled_bundles_iff sell_with_raydium_def)
  then show "\<exists>balance_needed.
        get_min_balance_rent_for_exempt_for_account env = Inr balance_needed
        \<and> created_lamports instrs = [balance_needed]"
    by (elim sell_compiled_bundle) (simp add: sell_instructions_def)
qed

theorem ephemeral_account_funding_witness:
  "map created_lamports (assembled_bundles
     (snd (buy_with_raydium double_ops demo_constants demo_env demo_agent ''Pool'' (Finite 1) 50)))
   = [[2039280 + 1000000000]]
   \<and> map created_lamports (assembled_bundles
     (snd (sell_with_raydium double_ops demo_constants demo_env demo_agent ''Pool'' 100 50)))
   = [[2039280]]
   \<and> get_min_balance_rent_for_exempt_for_account demo_env = Inr 2039280
   \<and> f_int double_ops (f_mul double_ops (Finite 1) (SOL_DECIMAL demo_constants)) = Inr 1000000000"
  using ephemeral_account_funding
          [of double_ops demo_constants demo_env demo_agent "''Pool''" "Finite 1" 50 100 50]
        demo_buy_bundles demo_sell_bundles
  by (simp add: demo_defs round_double_exact)

text \<open>
  Claim C8. Both functions return a boolean for every input and every behaviour of the
  network and of the helpers: whatever exception the \<open>try\<close> block raises, at any of
  its steps, the function returns \<open>False\<close>.
\<close>

theorem raydium_calls_never_raise:
  "(\<exists>b. fst (buy_with_raydium fo c env agent addr sol_in slippage) = Inr b)
   \<and> (\<forall>e. fst (buy_try_block fo c env agent addr sol_in slippage) = Inl e
          \<longrightarrow> fst (buy_with_raydium fo c env agent addr sol_in slippage) = Inr False)
   \<and> (\<exists>b. fst (sell_with_raydium fo c env agent addr percentage slippage') = Inr b)
   \<and> (\<forall>e. fst (sell_try_block fo c env agent addr percentage slippage') = Inl e
          \<longrightarrow> fst (sell_with_raydium fo c env agent addr percentage slippage') = Inr False)"
  unfolding buy_with_raydium_def sell_with_raydium_def
  by (intro conjI allI impI except_return_False_returns except_return_False_raised)

theorem raydium_calls_never_raise_witness:
  "fst (buy_try_block double_ops demo_constants expired_env demo_agent ''Pool'' (Finite 1) 50)
     = Inl (PyException ''RPCException: Blockhash not found'')
   \<and> fst (buy_with_raydium double_ops demo_constants expired_env demo_agent ''Pool'' (Finite 1) 50)
     = Inr False
   \<and> fst (sell_try_block double_ops demo_constants expired_env demo_agent ''Pool'' 100 50)
     = Inl (PyException ''RPCException: Blockhash not found'')
   \<and> fst (sell_with_raydium double_ops demo_constants expired_env demo_agent ''Pool'' 100 50)
     = Inr False"
  using raydium_calls_never_raise
          [of double_ops demo_constants expired_env demo_agent "''Pool''" "Finite 1" 50 100 50]
        expired_results
  by simp

text \<open>
  Claim C9. Take two calls, each of \<open>buy_with_raydium\<close> or of
  \<open>sell_with_raydium\<close>, each with its own answers of the outside world. A call that
  assembles a bundle has asked the random source for 24 bytes; the bundle creates one
  account; the seed of that account is the text this call got from the random source and
  its address is what \<open>create_with_seed\<close> derives from the payer, that seed and the token
  program. When the two calls are for the same wallet, \<open>create_with_seed\<close> is the same
  function in both, it gives no address for two seeds of this wallet, and the random
  source answered the two calls differently, the account of a bundle of the first call
  and the account of a bundle of the second have distinct seeds and distinct addresses.
  That the random source cannot be predicted, and that it seldom answers twice the same,
  are properties of \<open>os.urandom\<close>; they are not stated here.
\<close>

theorem consecutive_bundles_create_distinct_accounts:
  assumes "tr1 = snd (buy_with_raydium fo c env1 agent1 addr1 sol_in1 slippage1)
           \<or> tr1 = snd (sell_with_raydium fo c env1 agent1 addr1 percentage1 slippage1')"
    and "tr2 = snd (buy_with_raydium fo c env2 agent2 addr2 sol_in2 slippage2)
           \<or> tr2 = snd (sell_with_raydium fo c env2 agent2 addr2 percentage2 slippage2')"
  shows
    "(\<forall>instrs \<in> set (assembled_bundles tr1).
        \<exists>seed_text account.
          CallUrandom 24 \<in> set tr1
          \<and> urandom_seed env1 = Inr seed_text
          \<and> create_with_seed env1 (pubkey (wallet agent1)) seed_text (TOKEN_PROGRAM_ID c) = Inr account
          \<and> created_accounts instrs = [(seed_text, account)])
     \<and> (\<forall>instrs \<in> set (assembled_bundles tr2).
        \<exists>seed_text account.
          CallUrandom 24 \<in> set tr2
          \<and> urandom_seed env2 = Inr seed_text
          \<and> create_with_seed env2 (pubkey (wallet agent2)) seed_text (TOKEN_PROGRAM_ID c) = Inr account
          \<and> created_accounts instrs = [(seed_text, account)])
     \<and> (wallet agent1 = wallet agent2
        \<and> create_with_seed env1 = create_with_seed env2
        \<and> (\<forall>s s' account.
              create_with_seed env1 (pubkey (wallet agent1)) s (TOKEN_PROGRAM_ID c) = Inr account
              \<and> create_with_seed env1 (pubkey (wallet agent1)) s' (TOKEN_PROGRAM_ID c) = Inr account
              \<longrightarrow> s = s')
        \<and> urandom_seed env1 \<noteq> urandom_seed env2
        \<longrightarrow> (\<forall>instrs1 \<in> set (assembled_bundles tr1). \<forall>instrs2 \<in> set (assembled_bundles tr2).
              \<exists>seed1 account1 seed2 account2.
                created_accounts instrs1 = [(seed1, account1)]
                \<and> created_accounts instrs2 = [(seed2, account2)]
                \<and> seed1 \<noteq> seed2 \<and> account1 \<noteq> account2))"
proof (intro conjI ballI impI)
  fix instrs assume "instrs \<in> set (assembled_bundles tr1)"
  with assms(1) show "\<exists>seed_text account.
          CallUrandom 24 \<in> set tr1
          \<and> urandom_seed env1 = Inr seed_text
          \<and> create_with_seed env1 (pubkey (wallet agent1)) seed_text (TOKEN_PROGRAM_ID c) = Inr account
          \<and> created_accounts instrs = [(seed_text, account)]"
    by (rule bundle_created_account)
next
  fix instrs assume "instrs \<in> set (assembled_bundles tr2)"
  with assms(2) show "\<exists>seed_text account.
          CallUrandom 24 \<in> set tr2
          \<and> urandom_seed env2 = Inr seed_text
          \<and> create_with_seed env2 (pubkey (wallet agent2)) seed_text (TOKEN_PROGRAM_ID c) = Inr account
          \<and> created_accounts instrs = [(seed_text, account)]"
    by (rule bundle_created_account)
next
  fix instrs1 instrs2
  assume h: "wallet agent1 = wallet agent2
        \<and> create_with_seed env1 = create_with_seed env2
        \<and> (\<forall>s s' account.
              create_with_seed env1 (pubkey (wallet agent1)) s (TOKEN_PROGRAM_ID c) = Inr account
              \<and> create_with_seed env1 (pubkey (wallet agent1)) s' (TOKEN_PROGRAM_ID c) = Inr account
              \<longrightarrow> s = s')
        \<and> urandom_seed env1 \<noteq> urandom_seed env2"
    and b1: "instrs1 \<in> set (assembled_bundles tr1)"
    and b2: "instrs2 \<in> set (assembled_bundles tr2)"
  from bundle_created_account[OF assms(1) b1] obtain seed1 account1 where
    s1: "urandom_seed env1 = Inr seed1"
    and a1: "create_with_seed env1 (pubkey (wallet agent1)) seed1 (TOKEN_PROGRAM_ID c) = Inr account1"
    and c1: "created_accounts instrs1 = [(seed1, account1)]"
    by blast
  from bundle_created_account[OF assms(2) b2] obtain seed2 account2 where
    s2: "urandom_seed env2 = Inr seed2"
    and a2: "create_with_seed env2 (pubkey (wallet agent2)) seed2 (TOKEN_PROGRAM_ID c) = Inr account2"
    and c2: "created_accounts instrs2 = [(seed2, account2)]"
    by blast
  from h s1 s2 have ne: "seed1 \<noteq> seed2" by auto
  from h a2 have a2': "create_with_seed env1 (pubkey (wallet agent1)) seed2 (TOKEN_PROGRAM_ID c) = Inr account2"
    by simp
  have "account1 \<noteq> account2"
  proof
    assume "account1 = account2"
    with a1 a2' h have "seed1 = seed2" by blast
    with ne show False ..
  qed
  with c1 c2 ne show "\<exists>seed1 account1 seed2 account2.
                created_accounts instrs1 = [(seed1, account1)]
                \<and> created_accounts instrs2 = [(seed2, account2)]
                \<and> seed1 \<noteq> seed2 \<and> account1 \<noteq> account2"
    by blast
qed

theorem consecutive_bundles_create_distinct_accounts_witness:
  "map created_accounts (assembled_bundles
     (snd (buy_with_raydium double_ops demo_constants demo_env demo_agent ''Pool'' (Finite 1) 50)))
   = [[(''c2VlZHNlZWRzZWVkc2VlZHNlZWRzZWVk'', ''wsol-c2VlZHNlZWRzZWVkc2VlZHNlZWRzZWVk'')]]
   \<and> map created_accounts (assembled_bundles
     (snd (sell_with_raydium double_ops demo_constants next_env demo_agent ''Pool'' 100 50)))
   = [[(''bmV4dG5leHRuZXh0bmV4dG5leHRuZXh0'', ''wsol-bmV4dG5leHRuZXh0bmV4dG5leHRuZXh0'')]]
   \<and> urandom_seed demo_env = Inr ''c2VlZHNlZWRzZWVkc2VlZHNlZWRzZWVk''
   \<and> urandom_seed next_env = Inr ''bmV4dG5leHRuZXh0bmV4dG5leHRuZXh0''
   \<and> urandom_seed demo_env \<noteq> urandom_seed next_env
   \<and> create_with_seed demo_env = create_with_seed next_env
   \<and> (\<forall>s s'. create_with_seed demo_env (pubkey (wallet demo_agent)) s (TOKEN_PROGRAM_ID demo_constants)
                = create_with_seed demo_env (pubkey (wallet demo_agent)) s' (TOKEN_PROGRAM_ID demo_constants)
              \<longleftrightarrow> s = s')
   \<and> CallUrandom 24 \<in> set (snd (buy_with_raydium double_ops demo_constants demo_env demo_agent
                                  ''Pool'' (Finite 1) 50))
   \<and> CallUrandom 24 \<in> set (snd (sell_with_raydium double_ops demo_constants next_env demo_agent
                                  ''Pool'' 100 50))
   \<and> ''wsol-c2VlZHNlZWRzZWVkc2VlZHNlZWRzZWVk'' \<noteq> ''wsol-bmV4dG5leHRuZXh0bmV4dG5leHRuZXh0''"
proof -
  let ?tr1 = "snd (buy_with_raydium double_ops demo_constants demo_env demo_agent ''Pool'' (Finite 1) 50)"
  let ?tr2 = "snd (sell_with_raydium double_ops demo_constants next_env demo_agent ''Pool'' 100 50)"
  note t = consecutive_bundles_create_distinct_accounts
      [of ?tr1 double_ops demo_constants demo_env demo_agent "''Pool''" "Finite 1" 50 100 50
          ?tr2 next_env demo_agent "''Pool''" "Finite 1" 50 100 50]
  have e: "urandom_seed demo_env = Inr ''c2VlZHNlZWRzZWVkc2VlZHNlZWRzZWVk''"
    "urandom_seed next_env = Inr ''bmV4dG5leHRuZXh0bmV4dG5leHRuZXh0''"
    "create_with_seed demo_env = create_with_seed next_env"
    "\<forall>s s'. create_with_seed demo_env (pubkey (wallet demo_agent)) s (TOKEN_PROGRAM_ID demo_constants)
                = create_with_seed demo_env (pubkey (wallet demo_agent)) s' (TOKEN_PROGRAM_ID demo_constants)
              \<longleftrightarrow> s = s'"
    by (simp_all add: demo_env_def next_env_def)
  from e(1,2) have ne: "urandom_seed demo_env \<noteq> urandom_seed next_env" by simp
  from t have u1: "CallUrandom 24 \<in> set ?tr1"
    by (simp add: demo_buy_bundles)
  from t have u2: "CallUrandom 24 \<in> set ?tr2"
    by (simp add: next_sell_bundles)
  from t e ne have
    "''wsol-c2VlZHNlZWRzZWVkc2VlZHNlZWRzZWVk'' \<noteq> ''wsol-bmV4dG5leHRuZXh0bmV4dG5leHRuZXh0''"
    by (simp add: demo_buy_bundles next_sell_bundles)
  with e ne u1 u2 show ?thesis
    by (simp add: demo_buy_bundles next_sell_bundles)
qed

section \<open>Properties of the swap math\<close>

text \<open>
  Claim C3, as amended. For a non-negative base reserve, a positive quote reserve and a
  non-negative \<open>asset_in\<close> that are not both zero (so that the checked precondition
  \<open>base_reserve + asset_in > 0\<close> holds), \<open>native_for_asset\<close> returns a value, that
  value is at most the quote reserve, and a larger \<open>asset_in\<close> gives a value that is
  at least as large.
\<close>

theorem native_for_asset_bounded_and_monotone:
  assumes "0 \<le> base_reserve" "0 < quote_reserve" "0 \<le> asset_in" "asset_in \<le> asset_in'"
    and "0 < base_reserve + asset_in"
  shows "\<exists>native_out native_out'.
           native_for_asset asset_in base_reserve quote_reserve = Inr native_out
           \<and> native_for_asset asset_in' base_reserve quote_reserve = Inr native_out'
           \<and> native_out \<le> quote_reserve
           \<and> native_out \<le> native_out'"
proof -
  let ?k = "base_reserve * quote_reserve"
  have k: "0 \<le> ?k" using assms by simp
  have pos': "0 < base_reserve + asset_in'" using assms by linarith
  have "0 \<le> ?k / (base_reserve + asset_in)" using k assms(5) by simp
  then have bound: "quote_reserve - ?k / (base_reserve + asset_in) \<le> quote_reserve" by simp
  have "?k / (base_reserve + asset_in') \<le> ?k / (base_reserve + asset_in)"
    using k assms(4,5) by (intro divide_left_mono) (simp_all add: pos')
  then have mono: "quote_reserve - ?k / (base_reserve + asset_in)
                    \<le> quote_reserve - ?k / (base_reserve + asset_in')" by simp
  from assms(5) pos' bound mono show ?thesis by (simp add: native_for_asset_def)
qed

theorem native_for_asset_bounded_and_monotone_witness:
  "(0::rat) \<le> 1000000 \<and> (0::rat) < 500000 \<and> (0::rat) \<le> 10000 \<and> (10000::rat) \<le> 20000
   \<and> (0::rat) < 1000000 + 10000
   \<and> native_for_asset 10000 1000000 500000 = Inr (500000 / 101)
   \<and> native_for_asset 20000 1000000 500000 = Inr (500000 / 51)
   \<and> (500000 / 101 :: rat) \<le> 500000 \<and> (500000 / 101 :: rat) \<le> 500000 / 51"
  using native_for_asset_bounded_and_monotone[of 1000000 500000 10000 20000]
  by (simp add: native_for_asset_def)

text \<open>
  Claim C3 as stated fails. With a base reserve of 0 and \<open>asset_in = 0\<close>, both
  non-negative, and a quote reserve of 1, the combined reserve is zero and the function
  returns no value: it fails with \<open>InvalidReserveStateError\<close>.
\<close>

theorem native_for_asset_counterexample:
  "(0::rat) \<le> 0 \<and> (0::rat) < 1 \<and> native_for_asset 0 0 1 = Inl InvalidReserveStateError"
  by (simp add: native_for_asset_def)

section \<open>Properties of the quote\<close>

text \<open>
  The quote of 3 units of the output at the default slippage of 5 percent, with a scale of
  \<open>10^9\<close> (a token with nine decimals on the buy path, \<open>SOL_DECIMAL\<close> on the sell
  path), step by step: \<open>5 / 100\<close>, \<open>1 - 0.05\<close>, \<open>3.0 * 0.95\<close> and the product with
  the scale are each rounded to a double.
\<close>

lemma floor_numeral_div:
  "\<lfloor>numeral a / numeral b :: rat\<rfloor> = numeral a div numeral b"
  using floor_divide_of_int_eq[of "numeral a" "numeral b", where ?'a = rat] by simp

lemma round_double_eval:
  assumes "2 powi e \<le> x" "x < 2 powi (e + 1)"
    and "round_half_even (x / 2 powi max (e - 52) (- 1074)) = m"
    and "of_int m * 2 powi max (e - 52) (- 1074) = r" "r < 2 ^ 1024"
  shows "round_double x = Finite r"
proof -
  have x: "0 < x" using assms(1) zero_less_power_int[of "2::rat" e] by linarith
  have "floor_log2 x = e" using assms(1,2) by (rule floor_log2_eqI)
  then have "round_pos x = r" using assms(3,4) by (simp add: round_pos_def Let_def)
  with x assms(5) show ?thesis by (simp add: round_double_def)
qed

lemma round_double_5_percent:
  "round_double (1 / 20) = Finite (3602879701896397 / 72057594037927936)"
  by (rule round_double_eval[where e = "- 5" and m = 7205759403792794])
     (simp_all add: power_int_minus_divide round_half_even_def Let_def floor_numeral_div)

lemma round_double_95_percent:
  "round_double (68454714336031539 / 72057594037927936)
     = Finite (4278419646001971 / 4503599627370496)"
  by (rule round_double_eval[where e = "- 1" and m = 8556839292003942])
     (simp_all add: power_int_minus_divide round_half_even_def Let_def floor_numeral_div)

lemma round_double_3_times_95_percent:
  "round_double (12835258938005913 / 4503599627370496)
     = Finite (1604407367250739 / 562949953421312)"
  by (rule round_double_eval[where e = 1 and m = 6417629469002956])
     (simp_all add: power_int_minus_divide round_half_even_def Let_def floor_numeral_div)

lemma round_double_scaled:
  "round_double (1604407367250739 * 1000000000 / 562949953421312)
     = Finite (5976883199999999 / 2097152)"
  by (rule round_double_eval[where e = 31 and m = 5976883199999999])
     (simp_all add: power_int_minus_divide round_half_even_def Let_def floor_numeral_div)

lemma slippage_5_adjustment:
  "slippage_adjustment double_ops 5 = Inr (Finite (4278419646001971 / 4503599627370496))"
  using round_double_5_percent round_double_95_percent
  by (simp add: slippage_adjustment_def double_ops_def float_truediv_int_def float_of_int_def
        bind_exn_def round_double_1)

lemma slippage_5_minimum:
  "buy_minimum_amount_out double_ops (Finite 3) (Finite (4278419646001971 / 4503599627370496)) 9
     = Inr 2849999999"
  "sell_minimum_amount_out double_ops demo_constants (Finite 3)
     (Finite (4278419646001971 / 4503599627370496)) = Inr 2849999999"
  using round_double_3_times_95_percent round_double_scaled
  by (simp_all add: buy_minimum_amount_out_def sell_minimum_amount_out_def f_mul_int_def
        double_ops_def float_of_int_def bind_exn_def demo_constants_def round_double_exact
        floor_numeral_div)

lemma estimate_of_3:
  "buy_amount_out_estimate double_ops (Finite 3) 9 = Inr 3000000000"
  "sell_amount_out_estimate double_ops demo_constants (Finite 3) = Inr 3000000000"
  "is_double 3"
  by (simp_all add: buy_amount_out_estimate_def sell_amount_out_estimate_def f_mul_int_def
        double_ops_def float_of_int_def bind_exn_def demo_constants_def is_double_def
        round_double_exact)

lemma slippage_0_run:
  "slippage_adjustment double_ops 0 = Inr (Finite 1)"
  "buy_minimum_amount_out double_ops (Finite 3) (Finite 1) 9 = Inr 3000000000"
  "sell_minimum_amount_out double_ops demo_constants (Finite 3) (Finite 1) = Inr 3000000000"
  by (simp_all add: slippage_adjustment_def buy_minimum_amount_out_def sell_minimum_amount_out_def
        f_mul_int_def double_ops_def float_of_int_def float_truediv_int_def bind_exn_def
        demo_constants_def round_double_exact)

text \<open>
  Claim C7, as amended. The amounts are doubles, and \<open>minimum_amount_out\<close> is the
  truncation of the rounded product \<open>amount_out * slippage_adjustment * scale\<close>, which
  is not always the floor of the exact product. For every finite non-negative
  \<open>amount_out\<close> and every slippage from 0 to 100, whenever the unadjusted estimate
  \<open>int(amount_out * scale)\<close> can be computed (the product does not overflow), the
  minimum is computed too, it is non-negative, it is at most the estimate, and it is the
  estimate when the slippage is 0. The scale is \<open>10**token_decimal\<close> on the buy path
  and \<open>SOL_DECIMAL\<close>, a non-negative double, on the sell path.
\<close>

theorem minimum_amount_out_bounds:
  assumes "is_double amount_out" "0 \<le> amount_out" "0 \<le> slippage" "slippage \<le> 100"
  shows "(\<forall>estimate.
            buy_amount_out_estimate double_ops (Finite amount_out) token_decimal = Inr estimate \<longrightarrow>
            (\<exists>adj m. slippage_adjustment double_ops slippage = Inr adj
               \<and> buy_minimum_amount_out double_ops (Finite amount_out) adj token_decimal = Inr m
               \<and> 0 \<le> m \<and> m \<le> estimate \<and> (slippage = 0 \<longrightarrow> m = estimate)))
       \<and> (\<forall>estimate S.
            SOL_DECIMAL c = Finite S \<and> 0 \<le> S
            \<and> sell_amount_out_estimate double_ops c (Finite amount_out) = Inr estimate \<longrightarrow>
            (\<exists>adj m. slippage_adjustment double_ops slippage = Inr adj
               \<and> sell_minimum_amount_out double_ops c (Finite amount_out) adj = Inr m
               \<and> 0 \<le> m \<and> m \<le> estimate \<and> (slippage = 0 \<longrightarrow> m = estimate)))"
proof -
  obtain adj where adj: "slippage_adjustment double_ops slippage = Inr (Finite adj)"
    "0 \<le> adj" "adj \<le> 1" "slippage = 0 \<longrightarrow> adj = 1"
    using assms(3,4) by (rule slippage_adjustment_range)
  have buy: "\<exists>adj m. slippage_adjustment double_ops slippage = Inr adj
               \<and> buy_minimum_amount_out double_ops (Finite amount_out) adj token_decimal = Inr m
               \<and> 0 \<le> m \<and> m \<le> estimate \<and> (slippage = 0 \<longrightarrow> m = estimate)"
    if est: "buy_amount_out_estimate double_ops (Finite amount_out) token_decimal = Inr estimate"
    for estimate
  proof -
    from est obtain f where f: "float_of_int (10 ^ token_decimal) = Inr f"
      and fi: "float_int (float_mul (Finite amount_out) f) = Inr estimate"
      by (auto simp: buy_amount_out_estimate_def f_mul_int_def double_ops_def bind_exn_def
            split: sum.splits)
    from f obtain S where S: "f = Finite S" "round_double (of_int (10 ^ token_decimal)) = Finite S"
      by (rule float_of_int_Inr)
    have "(0::rat) \<le> of_int (10 ^ token_decimal)" by simp
    then have S0: "0 \<le> S"
      using round_double_mono_finite[OF _ _ S(2), of 0] by (auto simp: round_double_0)
    from fi S(1) obtain P where P: "round_double (amount_out * S) = Finite P"
      and e: "estimate = (if 0 \<le> P then \<lfloor>P\<rfloor> else \<lceil>P\<rceil>)"
      by (auto elim!: float_int_Inr)
    obtain p1 p2 where p: "round_double (amount_out * adj) = Finite p1"
      "round_double (p1 * S) = Finite p2" "0 \<le> p2" "p2 \<le> P" "adj = 1 \<longrightarrow> p2 = P"
      using assms(1,2) adj(2,3) S0 P by (rule scaled_product_le)
    have m: "buy_minimum_amount_out double_ops (Finite amount_out) (Finite adj) token_decimal
               = Inr \<lfloor>p2\<rfloor>"
      using f S(1) p(1,2,3)
      by (simp add: buy_minimum_amount_out_def f_mul_int_def double_ops_def bind_exn_def)
    have "0 \<le> P" using p(3,4) by linarith
    with e have e': "estimate = \<lfloor>P\<rfloor>" by simp
    have "0 \<le> \<lfloor>p2\<rfloor>" "\<lfloor>p2\<rfloor> \<le> estimate" unfolding e' using p(3,4) by (rule floor_mono_nonneg)+
    moreover have "slippage = 0 \<longrightarrow> \<lfloor>p2\<rfloor> = estimate" using adj(4) p(5) e' by simp
    ultimately show ?thesis using adj(1) m by blast
  qed
  have sell: "\<exists>adj m. slippage_adjustment double_ops slippage = Inr adj
               \<and> sell_minimum_amount_out double_ops c (Finite amount_out) adj = Inr m
               \<and> 0 \<le> m \<and> m \<le> estimate \<and> (slippage = 0 \<longrightarrow> m = estimate)"
    if h: "SOL_DECIMAL c = Finite S \<and> 0 \<le> S
            \<and> sell_amount_out_estimate double_ops c (Finite amount_out) = Inr estimate"
    for estimate S
  proof -
    from h have S: "SOL_DECIMAL c = Finite S" and S0: "0 \<le> S"
      and fi: "float_int (float_mul (Finite amount_out) (Finite S)) = Inr estimate"
      by (auto simp: sell_amount_out_estimate_def double_ops_def)
    from fi obtain P where P: "round_double (amount_out * S) = Finite P"
      and e: "estimate = (if 0 \<le> P then \<lfloor>P\<rfloor> else \<lceil>P\<rceil>)"
      by (auto elim!: float_int_Inr)
    obtain p1 p2 where p: "round_double (amount_out * adj) = Finite p1"
      "round_double (p1 * S) = Finite p2" "0 \<le> p2" "p2 \<le> P" "adj = 1 \<longrightarrow> p2 = P"
      using assms(1,2) adj(2,3) S0 P by (rule scaled_product_le)
    have m: "sell_minimum_amount_out double_ops c (Finite amount_out) (Finite adj) = Inr \<lfloor>p2\<rfloor>"
      using S p(1,2,3) by (simp add: sell_minimum_amount_out_def double_ops_def)
    have "0 \<le> P" using p(3,4) by linarith
    with e have e': "estimate = \<lfloor>P\<rfloor>" by simp
    have "0 \<le> \<lfloor>p2\<rfloor>" "\<lfloor>p2\<rfloor> \<le> estimate" unfolding e' using p(3,4) by (rule floor_mono_nonneg)+
    moreover have "slippage = 0 \<longrightarrow> \<lfloor>p2\<rfloor> = estimate" using adj(4) p(5) e' by simp
    ultimately show ?thesis using adj(1) m by blast
  qed
  from buy sell show ?thesis by blast
qed

theorem minimum_amount_out_bounds_witness:
  "is_double 3 \<and> (0::rat) \<le> 3 \<and> (0::int) \<le> 5 \<and> (5::int) \<le> 100
   \<and> buy_amount_out_estimate double_ops (Finite 3) 9 = Inr 3000000000
   \<and> slippage_adjustment double_ops 5 = Inr (Finite (4278419646001971 / 4503599627370496))
   \<and> buy_minimum_amount_out double_ops (Finite 3)
         (Finite (4278419646001971 / 4503599627370496)) 9 = Inr 2849999999
   \<and> (0::int) \<le> 2849999999 \<and> (2849999999::int) \<le> 3000000000
   \<and> SOL_DECIMAL demo_constants = Finite 1000000000 \<and> (0::rat) \<le> 1000000000
   \<and> sell_amount_out_estimate double_ops demo_constants (Finite 3) = Inr 3000000000
   \<and> sell_minimum_amount_out double_ops demo_constants (Finite 3)
         (Finite (4278419646001971 / 4503599627370496)) = Inr 2849999999
   \<and> slippage_adjustment double_ops 0 = Inr (Finite 1)
   \<and> buy_minimum_amount_out double_ops (Finite 3) (Finite 1) 9 = Inr 3000000000
   \<and> sell_minimum_amount_out double_ops demo_constants (Finite 3) (Finite 1) = Inr 3000000000"
  using minimum_amount_out_bounds[of 3 5 9 demo_constants]
        minimum_amount_out_bounds[of 3 0 9 demo_constants]
        estimate_of_3 slippage_5_adjustment slippage_5_minimum slippage_0_run
  by (simp add: demo_constants_def)

text \<open>
  Claim C7 as stated fails. For an estimate of 3000000000 units (\<open>amount_out = 3.0\<close>
  and a scale of \<open>10^9\<close>) and the default slippage of 5, the source computes a minimum
  of 2849999999 on both paths, whereas \<open>floor(3000000000 * (1 - 5 / 100))\<close> is
  2850000000: \<open>1 - 5 / 100\<close> is the double just below 0.95, and the roundings of the
  two products leave the result just below 2850000000.
\<close>

theorem minimum_amount_out_counterexample:
  "buy_amount_out_estimate double_ops (Finite 3) 9 = Inr 3000000000
   \<and> sell_amount_out_estimate double_ops demo_constants (Finite 3) = Inr 3000000000
   \<and> slippage_adjustment double_ops 5 = Inr (Finite (4278419646001971 / 4503599627370496))
   \<and> buy_minimum_amount_out double_ops (Finite 3)
         (Finite (4278419646001971 / 4503599627370496)) 9 = Inr 2849999999
   \<and> sell_minimum_amount_out double_ops demo_constants (Finite 3)
         (Finite (4278419646001971 / 4503599627370496)) = Inr 2849999999
   \<and> spec_minimum_amount_out 3000000000 5 = 2850000000"
  using estimate_of_3 slippage_5_adjustment slippage_5_minimum
  by (simp add: spec_minimum_amount_out_def floor_numeral_div)

end
